theory Spec2Isabelle
  imports Main "HOL-Library.Word"
begin

unbundle bit_operations_syntax

section \<open>The iwallet helpers of go-iost (iwallet/utils.go)\<close>

text \<open>
  A shallow embedding of the account, signature and amount-limit helpers of
  \<^verbatim>\<open>iwallet/utils.go\<close>. Go strings are byte strings and are modelled as
  \<^typ>\<open>string\<close>. Every \<^verbatim>\<open>return ..., err\<close> of the source is a branch of the
  model that returns the error as a value.
\<close>

subsection \<open>Error values\<close>

text \<open>
  A \<^verbatim>\<open>float64\<close> result of \<^verbatim>\<open>strconv.ParseFloat\<close>, as far as this file can observe it: the
  zero returned beside a syntax error, an infinity, a NaN, or \<open>F64_Nearest s\<close>, the
  number nearest to the literal \<open>s\<close>, which is not computed here.
\<close>

datatype float64 = F64_Zero | F64_PosInf | F64_NegInf | F64_NaN | F64_Nearest string

text \<open>
  A Go \<^verbatim>\<open>error\<close> is kept structured instead of rendered to its message:
  \<^item> \<open>Errorf fmt args\<close> is the value of \<^verbatim>\<open>fmt.Errorf(fmt, args...)\<close>, with the format string of
    the source and the arguments in order;
  \<^item> \<open>PathError op path err\<close> is \<^verbatim>\<open>&os.PathError{Op, Path, Err}\<close>, the error type of package
    \<^verbatim>\<open>os\<close>;
  \<^item> \<open>NumError func num err\<close> is \<^verbatim>\<open>&strconv.NumError{Func, Num, Err}\<close>;
  \<^item> \<open>ErrorString msg\<close> is any other error, identified by its message (a system error
    number, \<^verbatim>\<open>strconv.ErrSyntax\<close>, an error of a collaborator outside this file).
\<close>

datatype error =
    Errorf string "fmtarg list"
  | PathError string string error
  | NumError string string error
  | ErrorString string
and fmtarg =
    ArgStr string
  | ArgErr error
  | ArgFloat float64

subsection \<open>strings.Split\<close>

text \<open>
  \<^verbatim>\<open>strings.Split(s, sep)\<close> for a separator of one byte, which is how every call of this
  file uses it (\<^verbatim>\<open>"@"\<close>, \<^verbatim>\<open>"|"\<close>, \<^verbatim>\<open>":"\<close>). As the library's loop does, it cuts \<open>s\<close> at the
  first separator, keeps the piece before it and goes on with the rest; the last piece
  is what remains. A string with \<open>n\<close> separators gives \<open>n + 1\<close> pieces, so the empty
  string gives one empty piece.
\<close>

function Split :: "string \<Rightarrow> char \<Rightarrow> string list" where
  "Split s sep =
     (case dropWhile (\<lambda>c. c \<noteq> sep) s of
        [] \<Rightarrow> [s]
      | _ # rest \<Rightarrow> takeWhile (\<lambda>c. c \<noteq> sep) s # Split rest sep)"
  by pat_completeness auto
termination
proof (relation "measure (\<lambda>(s, sep). length s)")
  show "wf (measure (\<lambda>(s :: string, sep :: char). length s))" by simp
next
  fix s :: string and sep c rest
  assume "dropWhile (\<lambda>c. c \<noteq> sep) s = c # rest"
  then have "length (dropWhile (\<lambda>c. c \<noteq> sep) s) = Suc (length rest)" by simp
  moreover have "length (dropWhile (\<lambda>c. c \<noteq> sep) s) \<le> length s"
    by (rule length_dropWhile_le)
  ultimately show "((rest, sep), (s, sep)) \<in> measure (\<lambda>(s, sep). length s)" by simp
qed

declare Split.simps [simp del]

subsection \<open>checkSigners\<close>

text \<open>
  \<^verbatim>\<open>
  func checkSigners(signers []string) error {
      for _, s := range signers {
          if !(len(strings.Split(s, "@")) == 2) {
              return fmt.Errorf("signer %v should contain '@'", s)
          }
      }
      return nil
  }
  \<close>
  The result is \<open>None\<close> for Go's \<^verbatim>\<open>nil\<close> error.
\<close>

definition signer_format :: string where
  "signer_format = ''signer %v should contain '' @ [CHR 0x27, CHR ''@'', CHR 0x27]"

fun checkSigners :: "string list \<Rightarrow> error option" where
  "checkSigners [] = None"
| "checkSigners (s # signers) =
     (if \<not> (length (Split s (CHR ''@'')) = 2)
      then Some (Errorf signer_format [ArgStr s])
      else checkSigners signers)"

subsection \<open>GetSignAlgoByName\<close>

text \<open>
  \<^verbatim>\<open>crypto.Algorithm\<close> is declared outside this file; the two constants the file uses are
  its values here.
\<close>

datatype Algorithm = Secp256k1 | Ed25519

definition GetSignAlgoByName :: "string \<Rightarrow> Algorithm" where
  "GetSignAlgoByName name =
     (if name = ''secp256k1'' then Secp256k1
      else if name = ''ed25519'' then Ed25519
      else Ed25519)"

subsection \<open>strconv.ParseFloat\<close>

text \<open>
  \<^verbatim>\<open>ParseAmountLimit\<close> validates a value with \<^verbatim>\<open>strconv.ParseFloat(value, 64)\<close>, a function of
  Go's library. In the model of \<^verbatim>\<open>ParseAmountLimit\<close> it is a parameter. \<open>ParseFloat\<close> below
  is the library function as its sources (\<^verbatim>\<open>strconv/atof.go\<close>, Go 1.13 and later) define
  it, for the closed examples: which strings it accepts, and which error it returns
  otherwise.
  \<^item> \<open>special\<close>: the strings \<^verbatim>\<open>inf\<close> and \<^verbatim>\<open>infinity\<close> with an optional sign, and \<^verbatim>\<open>nan\<close> without
    one, in any case of the letters, are the infinities and NaN.
  \<^item> \<open>readFloat\<close>: an optional sign; an optional \<^verbatim>\<open>0x\<close> that is followed by something;
    digits with at most one point and at least one digit; an exponent (\<^verbatim>\<open>e\<close>, or \<^verbatim>\<open>p\<close>
    after \<^verbatim>\<open>0x\<close>, where it is required) with an optional sign and at least one digit;
    nothing after it. Underscores are skipped and then checked by \<open>underscoreOK\<close>: each
    stands between two digits, or between the base prefix and a digit.
  \<^item> A string that is neither is a syntax error, returned with the number 0.
  \<^item> A number whose magnitude rounds beyond the largest \<^verbatim>\<open>float64\<close> is a range error,
    returned with the infinity of its sign. The magnitude is compared exactly, as
    mantissa and exponent (the library's rounding decides the same way for a literal
    of at most 800 digits); the exponent stops growing at 10000, as in the library.
\<close>

definition ErrSyntax :: error where
  "ErrSyntax = ErrorString ''invalid syntax''"

definition ErrRange :: error where
  "ErrRange = ErrorString ''value out of range''"

definition is_digit :: "char \<Rightarrow> bool" where
  "is_digit c = (c \<in> set ''0123456789'')"

definition is_hex_letter :: "char \<Rightarrow> bool" where
  "is_hex_letter c = (c \<in> set ''abcdefABCDEF'')"

definition digit_val :: "char \<Rightarrow> nat" where
  "digit_val c =
     (if is_digit c then of_char c - 48
      else if c \<in> set ''abcdef'' then of_char c - 87
      else of_char c - 55)"

definition to_lower :: "char \<Rightarrow> char" where
  "to_lower c =
     (case map_of (zip ''ABCDEFGHIJKLMNOPQRSTUVWXYZ'' ''abcdefghijklmnopqrstuvwxyz'') c of
        Some l \<Rightarrow> l
      | None \<Rightarrow> c)"

definition special :: "string \<Rightarrow> float64 option" where
  "special s =
     (case s of
        [] \<Rightarrow> None
      | c # r \<Rightarrow>
          if c = CHR ''+'' \<or> c = CHR ''-'' then
            (if map to_lower r = ''inf'' \<or> map to_lower r = ''infinity''
             then Some (if c = CHR ''-'' then F64_NegInf else F64_PosInf)
             else None)
          else if c = CHR ''i'' \<or> c = CHR ''I'' then
            (if map to_lower s = ''inf'' \<or> map to_lower s = ''infinity''
             then Some F64_PosInf
             else None)
          else if c = CHR ''n'' \<or> c = CHR ''N'' then
            (if map to_lower s = ''nan'' then Some F64_NaN else None)
          else None)"

datatype saw = SawStart | SawDigit | SawUnderscore | SawOther

fun underscoreOK_loop :: "bool \<Rightarrow> saw \<Rightarrow> string \<Rightarrow> bool" where
  "underscoreOK_loop hex seen [] = (seen \<noteq> SawUnderscore)"
| "underscoreOK_loop hex seen (c # s) =
     (if is_digit c \<or> (hex \<and> is_hex_letter c) then underscoreOK_loop hex SawDigit s
      else if c = CHR ''_'' then
        (if seen \<noteq> SawDigit then False else underscoreOK_loop hex SawUnderscore s)
      else if seen = SawUnderscore then False
      else underscoreOK_loop hex SawOther s)"

definition underscoreOK :: "string \<Rightarrow> bool" where
  "underscoreOK s0 =
     (let s = (case s0 of
                 [] \<Rightarrow> s0
               | c # r \<Rightarrow> if c = CHR ''-'' \<or> c = CHR ''+'' then r else s0)
      in case s of
           z # b # r \<Rightarrow>
             if z = CHR ''0'' \<and> b \<in> set ''bBoOxX''
             then underscoreOK_loop (b \<in> set ''xX'') SawDigit r
             else underscoreOK_loop False SawStart s
         | _ \<Rightarrow> underscoreOK_loop False SawStart s)"

text \<open>
  The digits of the mantissa. The result is whether a digit was seen, the mantissa as
  a whole number, how many of its digits stand after the point, and the rest of the
  string.
\<close>

fun scan_mantissa ::
  "bool \<Rightarrow> string \<Rightarrow> bool \<Rightarrow> bool \<Rightarrow> nat \<Rightarrow> nat \<Rightarrow> (bool \<times> nat \<times> nat) \<times> string"
where
  "scan_mantissa hex [] sawdot sawdigits m frac = ((sawdigits, m, frac), [])"
| "scan_mantissa hex (c # s) sawdot sawdigits m frac =
     (if c = CHR ''_'' then scan_mantissa hex s sawdot sawdigits m frac
      else if c = CHR ''.'' then
        (if sawdot then ((sawdigits, m, frac), c # s)
         else scan_mantissa hex s True sawdigits m frac)
      else if is_digit c \<or> (hex \<and> is_hex_letter c) then
        scan_mantissa hex s sawdot True
          (m * (if hex then 16 else 10) + digit_val c) (if sawdot then Suc frac else frac)
      else ((sawdigits, m, frac), c # s))"

fun scan_exponent :: "string \<Rightarrow> nat \<Rightarrow> nat \<times> string" where
  "scan_exponent [] e = (e, [])"
| "scan_exponent (c # s) e =
     (if c = CHR ''_'' then scan_exponent s e
      else if is_digit c then scan_exponent s (if e < 10000 then e * 10 + digit_val c else e)
      else (e, c # s))"

definition read_exponent :: "bool \<Rightarrow> string \<Rightarrow> int option" where
  "read_exponent hex r =
     (case r of
        [] \<Rightarrow> if hex then None else Some 0
      | c # r1 \<Rightarrow>
          if (if hex then c \<in> set ''pP'' else c \<in> set ''eE'') then
            (case r1 of
               [] \<Rightarrow> None
             | d # r2 \<Rightarrow>
                 let esign = (if d = CHR ''-'' then (- 1 :: int) else 1);
                     r3 = (if d = CHR ''+'' \<or> d = CHR ''-'' then r2 else r1)
                 in case r3 of
                      [] \<Rightarrow> None
                    | x # _ \<Rightarrow>
                        if \<not> is_digit x then None
                        else (case scan_exponent r3 0 of
                                (e, []) \<Rightarrow> Some (int e * esign)
                              | (e, _ # _) \<Rightarrow> None))
          else None)"

text \<open>
  \<open>readFloat s\<close> is \<open>Some (neg, hex, m, e)\<close> when all of \<open>s\<close> is a number: its sign, its
  base, and its magnitude \<open>m * 10 ^ e\<close>, or \<open>m * 2 ^ e\<close> after \<^verbatim>\<open>0x\<close>.
\<close>

definition readFloat :: "string \<Rightarrow> (bool \<times> bool \<times> nat \<times> int) option" where
  "readFloat s =
     (case s of
        [] \<Rightarrow> None
      | c # r0 \<Rightarrow>
          let neg = (c = CHR ''-'');
              r = (if c = CHR ''+'' \<or> c = CHR ''-'' then r0 else s);
              hex = (case r of z # x # _ # _ \<Rightarrow> z = CHR ''0'' \<and> x \<in> set ''xX'' | _ \<Rightarrow> False);
              digits = (if hex then drop 2 r else r)
          in case scan_mantissa hex digits False False 0 0 of
               ((sawdigits, m, frac), rest) \<Rightarrow>
                 if \<not> sawdigits then None
                 else (case read_exponent hex rest of
                         None \<Rightarrow> None
                       | Some e \<Rightarrow>
                           if \<not> underscoreOK s then None
                           else Some (neg, hex, m, e - int ((if hex then 4 else 1) * frac))))"

text \<open>
  The least magnitude that rounds beyond the largest \<^verbatim>\<open>float64\<close>: half way between it,
  \<open>(2 ^ 53 - 1) * 2 ^ 971\<close>, and \<open>2 ^ 1024\<close>.
\<close>

definition float64_overflow :: nat where
  "float64_overflow = (2 ^ 54 - 1) * 2 ^ 970"

definition overflows :: "nat \<Rightarrow> nat \<Rightarrow> int \<Rightarrow> bool" where
  "overflows b m e =
     (if 0 \<le> e then float64_overflow \<le> m * b ^ nat e
      else float64_overflow * b ^ nat (- e) \<le> m)"

definition ParseFloat :: "string \<Rightarrow> float64 \<times> error option" where
  "ParseFloat s =
     (case special s of
        Some f \<Rightarrow> (f, None)
      | None \<Rightarrow>
          (case readFloat s of
             None \<Rightarrow> (F64_Zero, Some (NumError ''ParseFloat'' s ErrSyntax))
           | Some (neg, hex, m, e) \<Rightarrow>
               if overflows (if hex then 2 else 10) m e
               then (if neg then F64_NegInf else F64_PosInf,
                     Some (NumError ''ParseFloat'' s ErrRange))
               else (F64_Nearest s, None)))"

subsection \<open>ParseAmountLimit\<close>

record AmountLimit =
  Token :: string
  Value :: string

text \<open>
  \<^verbatim>\<open>
  for _, gram := range splits {
      limit := strings.Split(gram, ":")
      if len(limit) != 2 {
          return nil, fmt.Errorf("invalid amount limit %v", gram)
      }
      token := limit[0]
      if limit[1] != "unlimited" {
          amountLimit, err := strconv.ParseFloat(limit[1], 64)
          if err != nil {
              return nil, fmt.Errorf("invalid amount limit %v %v", amountLimit, err)
          }
      }
      tokenLimit := &rpcpb.AmountLimit{}
      tokenLimit.Token = token
      tokenLimit.Value = limit[1]
      result = append(result, tokenLimit)
  }
  \<close>
  The loop, with \<open>result\<close> as an accumulator; \<open>pf s\<close> is \<^verbatim>\<open>strconv.ParseFloat(s, 64)\<close>. Both
  index reads are in range, after the test of the length.
\<close>

fun ParseAmountLimit_loop ::
  "(string \<Rightarrow> float64 \<times> error option) \<Rightarrow> string list \<Rightarrow> AmountLimit list
     \<Rightarrow> error + AmountLimit list"
where
  "ParseAmountLimit_loop pf [] result = Inr result"
| "ParseAmountLimit_loop pf (gram # splits) result =
     (let limit = Split gram (CHR '':'') in
      if length limit \<noteq> 2
      then Inl (Errorf ''invalid amount limit %v'' [ArgStr gram])
      else
        let token = limit ! 0;
            failure =
              (if limit ! 1 \<noteq> ''unlimited''
               then (case pf (limit ! 1) of
                       (amountLimit, Some err) \<Rightarrow>
                         Some (Errorf ''invalid amount limit %v %v''
                                 [ArgFloat amountLimit, ArgErr err])
                     | (amountLimit, None) \<Rightarrow> None)
               else None)
        in case failure of
             Some e \<Rightarrow> Inl e
           | None \<Rightarrow>
               ParseAmountLimit_loop pf splits
                 (result @ [\<lparr>Token = token, Value = limit ! 1\<rparr>]))"

definition ParseAmountLimit ::
  "(string \<Rightarrow> float64 \<times> error option) \<Rightarrow> string \<Rightarrow> error + AmountLimit list"
where
  "ParseAmountLimit pf limitStr =
     (let result = [] in
      if limitStr = [] then Inr result
      else ParseAmountLimit_loop pf (Split limitStr (CHR ''|'')) result)"

text \<open>
  The words of the properties: the text of a group before its first colon and after
  it, a value that passes the validation, and a group that the loop accepts.
\<close>

definition limit_token :: "string \<Rightarrow> string" where
  "limit_token gram = takeWhile (\<lambda>c. c \<noteq> CHR '':'') gram"

definition limit_value :: "string \<Rightarrow> string" where
  "limit_value gram = tl (dropWhile (\<lambda>c. c \<noteq> CHR '':'') gram)"

definition value_passes :: "(string \<Rightarrow> float64 \<times> error option) \<Rightarrow> string \<Rightarrow> bool" where
  "value_passes pf v = (v = ''unlimited'' \<or> snd (pf v) = None)"

definition group_passes :: "(string \<Rightarrow> float64 \<times> error option) \<Rightarrow> string \<Rightarrow> bool" where
  "group_passes pf gram =
     (count_list gram (CHR '':'') = 1 \<and> value_passes pf (limit_value gram))"

definition to_limit :: "string \<Rightarrow> AmountLimit" where
  "to_limit gram = \<lparr>Token = limit_token gram, Value = limit_value gram\<rparr>"

subsection \<open>handleMultiSig\<close>

type_synonym bytes = "8 word list"

text \<open>
  \<^verbatim>\<open>account.KeyPair\<close>, \<^verbatim>\<open>rpcpb.Signature\<close> and \<^verbatim>\<open>rpcpb.TransactionRequest\<close> are declared outside
  this file. A key pair has an algorithm and the two keys. A signature record has an
  algorithm, the signature bytes and the signer's public key. Of a transaction request
  the file touches the \<^verbatim>\<open>Signatures\<close> field only; \<open>Content\<close> stands for all its other fields.
\<close>

record KeyPair =
  Algorithm :: Algorithm
  Pubkey :: bytes
  Seckey :: bytes

record Signature =
  SigAlgorithm :: Algorithm
  SigBytes :: bytes
  SigPublicKey :: bytes

record 'b TransactionRequest =
  Content :: 'b
  Signatures :: "Signature list"

text \<open>
  The collaborators of \<^verbatim>\<open>handleMultiSig\<close>: the package variable \<^verbatim>\<open>signAlgo\<close> and four functions
  of package \<^verbatim>\<open>sdk\<close>, which is outside this file. They are parameters of the model. The two
  loaders read a file; the storage is not written during the call, so what a loader
  returns is a function of the file name.
  \<^item> \<open>LoadKeyPair f algo\<close> is \<^verbatim>\<open>sdk.LoadKeyPair(f, algo)\<close>;
  \<^item> \<open>GetSignatureOfTx t kp\<close> is \<^verbatim>\<open>sdk.GetSignatureOfTx(t, kp)\<close>;
  \<^item> \<open>LoadProtoStructFromJSONFile f\<close> is \<^verbatim>\<open>sdk.LoadProtoStructFromJSONFile(f, sig)\<close> on a fresh
    \<^verbatim>\<open>sig\<close>, returning the record it filled;
  \<^item> \<open>VerifySigForTx t sig\<close> is \<^verbatim>\<open>sdk.VerifySigForTx(t, sig)\<close>.
\<close>

record 'b sdk =
  signAlgo :: string
  LoadKeyPair :: "string \<Rightarrow> string \<Rightarrow> error + KeyPair"
  GetSignatureOfTx :: "'b TransactionRequest \<Rightarrow> KeyPair \<Rightarrow> Signature"
  LoadProtoStructFromJSONFile :: "string \<Rightarrow> error + Signature"
  VerifySigForTx :: "'b TransactionRequest \<Rightarrow> Signature \<Rightarrow> bool"

text \<open>
  \<^verbatim>\<open>
  for _, f := range signKeys {
      kp, err := sdk.LoadKeyPair(f, signAlgo)
      if err != nil {
          return fmt.Errorf("sign tx with priv key %v err %v", f, err)
      }
      sigs = append(sigs, sdk.GetSignatureOfTx(t, kp))
  }
  \<close>
  The loop, with the slice \<open>sigs\<close> as an accumulator; \<open>Inl\<close> is the early return.
\<close>

fun signKeysLoop ::
  "'b sdk \<Rightarrow> 'b TransactionRequest \<Rightarrow> string list \<Rightarrow> Signature list \<Rightarrow> error + Signature list"
where
  "signKeysLoop S t [] sigs = Inr sigs"
| "signKeysLoop S t (f # signKeys) sigs =
     (case LoadKeyPair S f (signAlgo S) of
        Inl err \<Rightarrow> Inl (Errorf ''sign tx with priv key %v err %v'' [ArgStr f, ArgErr err])
      | Inr kp \<Rightarrow> signKeysLoop S t signKeys (sigs @ [GetSignatureOfTx S t kp]))"

text \<open>
  \<^verbatim>\<open>
  for _, f := range withSigns {
      sig := &rpcpb.Signature{}
      err := sdk.LoadProtoStructFromJSONFile(f, sig)
      if err != nil {
          return fmt.Errorf("invalid signature file %v", f)
      }
      if !sdk.VerifySigForTx(t, sig) {
          return fmt.Errorf("sign verify error %v", f)
      }
      sigs = append(sigs, sig)
  }
  \<close>
\<close>

fun withSignsLoop ::
  "'b sdk \<Rightarrow> 'b TransactionRequest \<Rightarrow> string list \<Rightarrow> Signature list \<Rightarrow> error + Signature list"
where
  "withSignsLoop S t [] sigs = Inr sigs"
| "withSignsLoop S t (f # withSigns) sigs =
     (case LoadProtoStructFromJSONFile S f of
        Inl err \<Rightarrow> Inl (Errorf ''invalid signature file %v'' [ArgStr f])
      | Inr sig \<Rightarrow>
          if \<not> VerifySigForTx S t sig
          then Inl (Errorf ''sign verify error %v'' [ArgStr f])
          else withSignsLoop S t withSigns (sigs @ [sig]))"

text \<open>
  \<^verbatim>\<open>handleMultiSig(t, withSigns, signKeys)\<close> mutates the request behind the pointer \<open>t\<close> and
  returns an error. The model returns the error (\<open>None\<close> for \<^verbatim>\<open>nil\<close>) and the request as
  the call leaves it. The only assignment to the request is \<^verbatim>\<open>t.Signatures = sigs\<close>, the
  last statement before \<^verbatim>\<open>return nil\<close>.
\<close>

definition handleMultiSig ::
  "'b sdk \<Rightarrow> 'b TransactionRequest \<Rightarrow> string list \<Rightarrow> string list
     \<Rightarrow> error option \<times> 'b TransactionRequest"
where
  "handleMultiSig S t withSigns signKeys =
     (let sigs = [] in
      if length withSigns \<noteq> 0 \<and> length signKeys \<noteq> 0
      then (Some (Errorf ''at least one of --sign_keys and --with_signs should be empty'' []), t)
      else
        case (if length signKeys > 0 then signKeysLoop S t signKeys sigs
              else if length withSigns > 0 then withSignsLoop S t withSigns sigs
              else Inr sigs) of
          Inl err \<Rightarrow> (Some err, t)
        | Inr sigs' \<Rightarrow> (None, t\<lparr>Signatures := sigs'\<rparr>))"

text \<open>
  What it means for one source to be ready: the key pair of a sign-key source loads; the
  record of an attached-signature source loads and verifies against the request.
\<close>

definition key_loads :: "'b sdk \<Rightarrow> string \<Rightarrow> bool" where
  "key_loads S f = (case LoadKeyPair S f (signAlgo S) of Inl err \<Rightarrow> False | Inr kp \<Rightarrow> True)"

definition sig_verifies :: "'b sdk \<Rightarrow> 'b TransactionRequest \<Rightarrow> string \<Rightarrow> bool" where
  "sig_verifies S t f =
     (case LoadProtoStructFromJSONFile S f of
        Inl err \<Rightarrow> False
      | Inr sig \<Rightarrow> VerifySigForTx S t sig)"

text \<open>
  A small storage to run \<^verbatim>\<open>handleMultiSig\<close> on: two key files, two signature records of
  which the second does not verify, and nothing else. The request signs as the key
  followed by the content; a record verifies when it is the signature of its public key.
\<close>

definition demo_key :: "string \<Rightarrow> error + KeyPair" where
  "demo_key f =
     (if f = ''alice_ed25519'' then Inr \<lparr>Algorithm = Ed25519, Pubkey = [1], Seckey = [11]\<rparr>
      else if f = ''bob_ed25519'' then Inr \<lparr>Algorithm = Ed25519, Pubkey = [2], Seckey = [12]\<rparr>
      else Inl (ErrorString ''no such file or directory''))"

definition demo_record :: "string \<Rightarrow> error + Signature" where
  "demo_record f =
     (if f = ''alice.sig''
      then Inr \<lparr>SigAlgorithm = Ed25519, SigBytes = [1, 7], SigPublicKey = [1]\<rparr>
      else if f = ''forged.sig''
      then Inr \<lparr>SigAlgorithm = Ed25519, SigBytes = [9, 9], SigPublicKey = [2]\<rparr>
      else Inl (ErrorString ''unexpected end of JSON input''))"

definition demo_sdk :: "bytes sdk" where
  "demo_sdk =
     \<lparr>signAlgo = ''ed25519'',
      LoadKeyPair = (\<lambda>f algo. demo_key f),
      GetSignatureOfTx = (\<lambda>t kp.
        \<lparr>SigAlgorithm = Algorithm kp, SigBytes = Pubkey kp @ Content t, SigPublicKey = Pubkey kp\<rparr>),
      LoadProtoStructFromJSONFile = demo_record,
      VerifySigForTx = (\<lambda>t sig. SigBytes sig = SigPublicKey sig @ Content t)\<rparr>"

definition demo_tx :: "bytes TransactionRequest" where
  "demo_tx = \<lparr>Content = [7], Signatures = []\<rparr>"

subsection \<open>The account directory\<close>

text \<open>
  \<^verbatim>\<open>
  func getAccountDir() (string, error) {
      home, err := homedir.Dir()
      if err != nil {
          return "", err
      }
      return home + "/.iwallet", nil
  }
  \<close>
  \<open>homedir\<close> is what \<^verbatim>\<open>homedir.Dir()\<close> returns.
\<close>

definition getAccountDir :: "error + string \<Rightarrow> error + string" where
  "getAccountDir homedir =
     (case homedir of
        Inl err \<Rightarrow> Inl err
      | Inr home \<Rightarrow> Inr (home @ ''/.iwallet''))"

subsection \<open>loadAccountByName\<close>

text \<open>
  The collaborators of \<^verbatim>\<open>loadAccountByName\<close>; the storage is read, not written, during
  the call.
  \<^item> \<open>HomeDir\<close> is the result of \<^verbatim>\<open>homedir.Dir()\<close>;
  \<^item> \<open>Stat f\<close> is the error of \<^verbatim>\<open>os.Stat(f)\<close>, \<open>None\<close> when the file is there;
  \<^item> \<open>loadAccountFromKeyStore\<close> and \<open>loadAccountFromKeyPair\<close> are the two loaders of the
    package, which are outside this file; \<open>'a\<close> is their \<^verbatim>\<open>AccountInfo\<close>.
\<close>

record 'a storage =
  HomeDir :: "error + string"
  Stat :: "string \<Rightarrow> error option"
  loadAccountFromKeyStore :: "string \<Rightarrow> bool \<Rightarrow> error + 'a"
  loadAccountFromKeyPair :: "string \<Rightarrow> error + 'a"

definition ValidSignAlgos :: "string list" where
  "ValidSignAlgos = [''ed25519'', ''secp256k1'']"

text \<open>
  \<^verbatim>\<open>
  for _, algo := range ValidSignAlgos {
      fileName := accountDir + "/" + name + "_" + algo
      if _, err := os.Stat(fileName); err == nil {
          return loadAccountFromKeyPair(fileName)
      }
  }
  return nil, fmt.Errorf("account not exist")
  \<close>
\<close>

fun loadAccountByName_loop :: "'a storage \<Rightarrow> string \<Rightarrow> string \<Rightarrow> string list \<Rightarrow> error + 'a" where
  "loadAccountByName_loop E accountDir name [] = Inl (Errorf ''account not exist'' [])"
| "loadAccountByName_loop E accountDir name (algo # algos) =
     (let fileName = accountDir @ ''/'' @ name @ ''_'' @ algo in
      if Stat E fileName = None then loadAccountFromKeyPair E fileName
      else loadAccountByName_loop E accountDir name algos)"

definition loadAccountByName :: "'a storage \<Rightarrow> string \<Rightarrow> bool \<Rightarrow> error + 'a" where
  "loadAccountByName E name ensureDecrypt =
     (case getAccountDir (HomeDir E) of
        Inl err \<Rightarrow> Inl err
      | Inr accountDir \<Rightarrow>
          let fileName = accountDir @ ''/'' @ name @ ''.json'' in
          if Stat E fileName = None then loadAccountFromKeyStore E fileName ensureDecrypt
          else loadAccountByName_loop E accountDir name ValidSignAlgos)"

text \<open>
  A storage to run it on: the files are those of the list, a key store loads to its
  name, a key file to its name.
\<close>

datatype demo_account = FromKeyStore string bool | FromKeyPair string

definition demo_storage :: "string list \<Rightarrow> demo_account storage" where
  "demo_storage present =
     \<lparr>HomeDir = Inr ''/home/u'',
      Stat = (\<lambda>f. if f \<in> set present then None
                  else Some (PathError ''stat'' f (ErrorString ''no such file or directory''))),
      loadAccountFromKeyStore = (\<lambda>f d. Inr (FromKeyStore f d)),
      loadAccountFromKeyPair = (\<lambda>f. Inr (FromKeyPair f))\<rparr>"

subsection \<open>SaveAccount\<close>

text \<open>
  The file system, as far as \<^verbatim>\<open>SaveAccount\<close> touches it: regular files with their
  permission bits and contents, directories with their permission bits, the umask of
  the process, and the lines printed to the standard output. The permission bits are
  those of \<^verbatim>\<open>os.FileMode\<close>, a 32-bit word: \<open>0x1C0\<close> is octal 0700, \<open>0x100\<close> is octal 0400,
  \<open>0x1B6\<close> is octal 0666, and \<open>0x3F\<close>, octal 077, holds every bit of the group and of the
  others.
\<close>

type_synonym FileMode = "32 word"

record inode =
  Perm :: FileMode
  Contents :: string

record world =
  files :: "string \<Rightarrow> inode option"
  dirs :: "string \<Rightarrow> FileMode option"
  umask :: FileMode
  stdout :: "string list"


text \<open>
  What the system decides: the home directory, and for each call whether it fails and
  with which error (a full disk, a missing permission, a path that is not a directory).
  A write that fails may have written the first \<open>n\<close> bytes. \<open>Base58Encode\<close> is
  \<^verbatim>\<open>common.Base58Encode\<close>, which is outside this file.
\<close>

record os =
  homedir_Dir :: "error + string"
  Base58Encode :: "bytes \<Rightarrow> string"
  mkdir_error :: "string \<Rightarrow> error option"
  open_error :: "string \<Rightarrow> error option"
  write_error :: "string \<Rightarrow> (nat \<times> error) option"

text \<open>
  The directories that \<^verbatim>\<open>os.MkdirAll(path, perm)\<close> makes sure of: \<open>path\<close> and every prefix of
  it that ends before a slash, but for the empty one.
\<close>

fun parents :: "string \<Rightarrow> string \<Rightarrow> string list" where
  "parents before [] = []"
| "parents before (c # s) =
     (if c = CHR ''/'' \<and> before \<noteq> [] then before # parents (before @ [c]) s
      else parents (before @ [c]) s)"

definition dir_chain :: "string \<Rightarrow> string list" where
  "dir_chain path = parents [] path @ [path]"

text \<open>
  \<^verbatim>\<open>os.MkdirAll(path, perm)\<close>: does nothing when \<open>path\<close> is a directory; otherwise it creates
  the missing directories of the chain with \<open>perm\<close>, less the bits of the umask, or
  fails with a \<^verbatim>\<open>*PathError\<close> and creates nothing.
\<close>

definition MkdirAll :: "os \<Rightarrow> string \<Rightarrow> FileMode \<Rightarrow> world \<Rightarrow> error option \<times> world" where
  "MkdirAll E path perm w =
     (if dirs w path \<noteq> None then (None, w)
      else case mkdir_error E path of
             Some e \<Rightarrow> (Some (PathError ''mkdir'' path e), w)
           | None \<Rightarrow>
               (None, w\<lparr>dirs := (\<lambda>p. if p \<in> set (dir_chain path) \<and> dirs w p = None
                                     then Some (perm AND NOT (umask w))
                                     else dirs w p)\<rparr>))"

datatype OpenFlag = O_RDWR | O_CREATE | O_TRUNC

text \<open>
  \<^verbatim>\<open>os.OpenFile(name, flag, perm)\<close>: a file that is not there is created, when \<^verbatim>\<open>O_CREATE\<close> is
  given, empty and with \<open>perm\<close> less the bits of the umask; a file that is there keeps
  its permission bits and is emptied when \<^verbatim>\<open>O_TRUNC\<close> is given. An error is a \<^verbatim>\<open>*PathError\<close>
  of the operation \<^verbatim>\<open>open\<close> on \<open>name\<close>. The open file is known by its name.
\<close>

definition OpenFile ::
  "os \<Rightarrow> string \<Rightarrow> OpenFlag set \<Rightarrow> FileMode \<Rightarrow> world \<Rightarrow> (error + string) \<times> world"
where
  "OpenFile E name flag perm w =
     (case open_error E name of
        Some e \<Rightarrow> (Inl (PathError ''open'' name e), w)
      | None \<Rightarrow>
          (case files w name of
             None \<Rightarrow>
               if O_CREATE \<in> flag
               then (Inr name,
                     w\<lparr>files := (files w)(name \<mapsto> \<lparr>Perm = perm AND NOT (umask w), Contents = []\<rparr>)\<rparr>)
               else (Inl (PathError ''open'' name (ErrorString ''no such file or directory'')), w)
           | Some f \<Rightarrow>
               (Inr name,
                if O_TRUNC \<in> flag then w\<lparr>files := (files w)(name \<mapsto> f\<lparr>Contents := []\<rparr>)\<rparr>
                else w)))"

text \<open>
  \<^verbatim>\<open>os.Create(name)\<close> is \<^verbatim>\<open>OpenFile(name, O_RDWR|O_CREATE|O_TRUNC, 0666)\<close>.
\<close>

definition Create :: "os \<Rightarrow> string \<Rightarrow> world \<Rightarrow> (error + string) \<times> world" where
  "Create E name w = OpenFile E name {O_RDWR, O_CREATE, O_TRUNC} 0x1B6 w"

text \<open>
  \<^verbatim>\<open>f.WriteString(s)\<close> on a file that was emptied when it was opened and is written once:
  the bytes are added to its contents. An error is a \<^verbatim>\<open>*PathError\<close> of the operation
  \<^verbatim>\<open>write\<close> on the name of the file, as the methods of \<^verbatim>\<open>*os.File\<close> return it; the bytes
  written before it stay. A name that is no file of the world is a file that was never
  opened, which cannot be written; \<^verbatim>\<open>SaveAccount\<close> writes only to what it has opened.
\<close>

definition WriteString :: "os \<Rightarrow> string \<Rightarrow> string \<Rightarrow> world \<Rightarrow> error option \<times> world" where
  "WriteString E name s w =
     (case files w name of
        None \<Rightarrow> (Some (PathError ''write'' name (ErrorString ''file already closed'')), w)
      | Some f \<Rightarrow>
          (case write_error E name of
             Some (n, e) \<Rightarrow>
               (Some (PathError ''write'' name e),
                w\<lparr>files := (files w)(name \<mapsto> f\<lparr>Contents := Contents f @ take n s\<rparr>)\<rparr>)
           | None \<Rightarrow>
               (None, w\<lparr>files := (files w)(name \<mapsto> f\<lparr>Contents := Contents f @ s\<rparr>)\<rparr>)))"

text \<open>
  \<^verbatim>\<open>fmt.Println(a, b)\<close> prints its operands with a space between them, on a line.
\<close>

definition Println :: "string \<Rightarrow> string \<Rightarrow> world \<Rightarrow> world" where
  "Println a b w = w\<lparr>stdout := stdout w @ [a @ '' '' @ b]\<rparr>"

text \<open>
  \<^verbatim>\<open>
  func SaveAccount(name string, kp *account.KeyPair) error {
      dir, err := getAccountDir()
      if err != nil {
          return err
      }
      err = os.MkdirAll(dir, 0700)
      if err != nil {
          return err
      }
      fileName := dir + "/" + name
      if kp.Algorithm == crypto.Ed25519 {
          fileName += "_ed25519"
      }
      if kp.Algorithm == crypto.Secp256k1 {
          fileName += "_secp256k1"
      }

      pubfile, err := os.Create(fileName + ".pub")
      if err != nil {
          return fmt.Errorf("create file %v err %v", fileName+".pub", err)
      }
      defer pubfile.Close()

      _, err = pubfile.WriteString(common.Base58Encode(kp.Pubkey))
      if err != nil {
          return err
      }

      secFile, err := os.OpenFile(fileName, os.O_RDWR|os.O_CREATE|os.O_TRUNC, 0400)
      if err != nil {
          return fmt.Errorf("create file %v err %v", fileName, err)
      }
      defer secFile.Close()

      _, err = secFile.WriteString(common.Base58Encode(kp.Seckey))
      if err != nil {
          return err
      }

      fmt.Println("Your account private key is saved at:", fileName)
      return nil
  }
  \<close>
  The two deferred \<^verbatim>\<open>Close\<close> calls run when the function returns; their results are
  dropped and they change neither a file nor a directory.
\<close>

definition key_file_name :: "string \<Rightarrow> string \<Rightarrow> KeyPair \<Rightarrow> string" where
  "key_file_name dir name kp =
     (let fileName = dir @ ''/'' @ name;
          fileName = (if Algorithm kp = Ed25519 then fileName @ ''_ed25519'' else fileName);
          fileName = (if Algorithm kp = Secp256k1 then fileName @ ''_secp256k1'' else fileName)
      in fileName)"

definition SaveAccount :: "os \<Rightarrow> string \<Rightarrow> KeyPair \<Rightarrow> world \<Rightarrow> error option \<times> world" where
  "SaveAccount E name kp w =
     (case getAccountDir (homedir_Dir E) of
        Inl err \<Rightarrow> (Some err, w)
      | Inr dir \<Rightarrow>
          (case MkdirAll E dir 0x1C0 w of
             (Some err, w1) \<Rightarrow> (Some err, w1)
           | (None, w1) \<Rightarrow>
               let fileName = key_file_name dir name kp in
               (case Create E (fileName @ ''.pub'') w1 of
                  (Inl err, w2) \<Rightarrow>
                    (Some (Errorf ''create file %v err %v''
                             [ArgStr (fileName @ ''.pub''), ArgErr err]), w2)
                | (Inr pubfile, w2) \<Rightarrow>
                    (case WriteString E pubfile (Base58Encode E (Pubkey kp)) w2 of
                       (Some err, w3) \<Rightarrow> (Some err, w3)
                     | (None, w3) \<Rightarrow>
                         (case OpenFile E fileName {O_RDWR, O_CREATE, O_TRUNC} 0x100 w3 of
                            (Inl err, w4) \<Rightarrow>
                              (Some (Errorf ''create file %v err %v''
                                       [ArgStr fileName, ArgErr err]), w4)
                          | (Inr secFile, w4) \<Rightarrow>
                              (case WriteString E secFile (Base58Encode E (Seckey kp)) w4 of
                                 (Some err, w5) \<Rightarrow> (Some err, w5)
                               | (None, w5) \<Rightarrow>
                                   (None,
                                    Println ''Your account private key is saved at:''
                                      fileName w5)))))))"

text \<open>
  The worlds of a run of \<^verbatim>\<open>SaveAccount\<close> after the directory step left \<open>w1\<close>: after the
  public key file was opened, after it was written, after the private key file was
  opened, after it was written.
\<close>

definition after_pub_open :: "os \<Rightarrow> string \<Rightarrow> world \<Rightarrow> world" where
  "after_pub_open E key w1 = snd (Create E (key @ ''.pub'') w1)"

definition after_pub_write :: "os \<Rightarrow> string \<Rightarrow> KeyPair \<Rightarrow> world \<Rightarrow> world" where
  "after_pub_write E key kp w1 =
     snd (WriteString E (key @ ''.pub'') (Base58Encode E (Pubkey kp)) (after_pub_open E key w1))"

definition after_key_open :: "os \<Rightarrow> string \<Rightarrow> KeyPair \<Rightarrow> world \<Rightarrow> world" where
  "after_key_open E key kp w1 =
     snd (OpenFile E key {O_RDWR, O_CREATE, O_TRUNC} 0x100 (after_pub_write E key kp w1))"

definition after_key_write :: "os \<Rightarrow> string \<Rightarrow> KeyPair \<Rightarrow> world \<Rightarrow> world" where
  "after_key_write E key kp w1 =
     snd (WriteString E key (Base58Encode E (Seckey kp)) (after_key_open E key kp w1))"

text \<open>
  A system to run \<^verbatim>\<open>SaveAccount\<close> on: an empty file system with umask 022 (\<open>0x12\<close>), a home
  directory, no failing directory, and the given failures of opening and writing. Its
  encoder is right for keys of zero bytes, which Base58 writes as that many \<open>1\<close>; the
  demo key pair is such a pair. \<open>disk_full\<close> fails the write of the private key file
  after one byte; \<open>deny target\<close> refuses the one path \<open>target\<close>.
\<close>

definition demo_os :: "(string \<Rightarrow> error option) \<Rightarrow> (string \<Rightarrow> (nat \<times> error) option) \<Rightarrow> os" where
  "demo_os oe we =
     \<lparr>homedir_Dir = Inr ''/home/u'',
      Base58Encode = (\<lambda>b. replicate (length b) (CHR ''1'')),
      mkdir_error = (\<lambda>p. None),
      open_error = oe,
      write_error = we\<rparr>"

definition demo_world :: world where
  "demo_world = \<lparr>files = (\<lambda>f. None), dirs = (\<lambda>d. None), umask = 0x12, stdout = []\<rparr>"

definition demo_pair :: KeyPair where
  "demo_pair = \<lparr>Algorithm = Ed25519, Pubkey = [0, 0], Seckey = [0, 0, 0]\<rparr>"

definition disk_full :: "string \<Rightarrow> (nat \<times> error) option" where
  "disk_full f =
     (if f = ''/home/u/.iwallet/alice_ed25519''
      then Some (1, ErrorString ''no space left on device'') else None)"

definition deny :: "string \<Rightarrow> string \<Rightarrow> error option" where
  "deny target f = (if f = target then Some (ErrorString ''permission denied'') else None)"

section \<open>Properties\<close>

subsection \<open>strings.Split\<close>

lemma Split_Nil: "Split [] sep = [[]]"
  by (simp add: Split.simps)

lemma Split_Cons:
  "Split (c # s) sep =
     (if c = sep then [] # Split s sep
      else (c # hd (Split s sep)) # tl (Split s sep))"
proof (cases "c = sep")
  case True
  then show ?thesis by (subst Split.simps) simp
next
  case False
  then have tw: "takeWhile (\<lambda>c. c \<noteq> sep) (c # s) = c # takeWhile (\<lambda>c. c \<noteq> sep) s"
    and dw: "dropWhile (\<lambda>c. c \<noteq> sep) (c # s) = dropWhile (\<lambda>c. c \<noteq> sep) s"
    by simp_all
  show ?thesis
  proof (cases "dropWhile (\<lambda>c. c \<noteq> sep) s")
    case Nil
    have "Split s sep = [s]"
      by (subst Split.simps) (simp only: Nil list.case)
    moreover have "Split (c # s) sep = [c # s]"
      by (subst Split.simps) (simp only: dw Nil list.case)
    ultimately show ?thesis using False by simp
  next
    case (Cons d rest)
    have "Split s sep = takeWhile (\<lambda>c. c \<noteq> sep) s # Split rest sep"
      by (subst Split.simps) (simp only: Cons list.case)
    moreover have "Split (c # s) sep = (c # takeWhile (\<lambda>c. c \<noteq> sep) s) # Split rest sep"
      by (subst Split.simps) (simp only: dw tw Cons list.case)
    ultimately show ?thesis using False by simp
  qed
qed

lemma Split_not_Nil: "Split s sep \<noteq> []"
  by (subst Split.simps) (simp split: list.splits)

lemma length_Split: "length (Split s sep) = Suc (count_list s sep)"
  by (induction s) (simp_all add: Split_Nil Split_Cons Split_not_Nil)

subsection \<open>checkSigners\<close>

lemma checkSigners_None_iff:
  "checkSigners signers = None \<longleftrightarrow> list_all (\<lambda>s. count_list s (CHR ''@'') = 1) signers"
  by (induction signers) (simp_all add: length_Split)

lemma checkSigners_Some:
  "checkSigners signers = Some e \<Longrightarrow>
     \<exists>pre s post. signers = pre @ s # post
       \<and> list_all (\<lambda>s. count_list s (CHR ''@'') = 1) pre
       \<and> count_list s (CHR ''@'') \<noteq> 1
       \<and> e = Errorf signer_format [ArgStr s]"
proof (induction signers)
  case Nil
  then show ?case by simp
next
  case (Cons x xs)
  show ?case
  proof (cases "count_list x (CHR ''@'') = 1")
    case True
    with Cons.prems have "checkSigners xs = Some e" by (simp add: length_Split)
    from Cons.IH [OF this] obtain pre s post where
      "xs = pre @ s # post" "list_all (\<lambda>s. count_list s (CHR ''@'') = 1) pre"
      "count_list s (CHR ''@'') \<noteq> 1" "e = Errorf signer_format [ArgStr s]"
      by blast
    with True have "x # xs = (x # pre) @ s # post
        \<and> list_all (\<lambda>s. count_list s (CHR ''@'') = 1) (x # pre)
        \<and> count_list s (CHR ''@'') \<noteq> 1 \<and> e = Errorf signer_format [ArgStr s]"
      by simp
    then show ?thesis by blast
  next
    case False
    with Cons.prems have "e = Errorf signer_format [ArgStr x]"
      by (simp add: length_Split)
    with False have "x # xs = [] @ x # xs
        \<and> list_all (\<lambda>s. count_list s (CHR ''@'') = 1) []
        \<and> count_list x (CHR ''@'') \<noteq> 1 \<and> e = Errorf signer_format [ArgStr x]"
      by simp
    then show ?thesis by blast
  qed
qed

text \<open>
  C7. For every list of signer strings, \<open>checkSigners\<close> succeeds if and only if every entry
  contains exactly one \<open>@\<close>. When it fails, the error is the signer-format error naming the
  first entry whose number of \<open>@\<close> is zero or more than one. Entries with an empty account
  or an empty permission, such as \<open>@\<close> and \<open>alice@\<close>, are accepted.
\<close>

theorem checkSigners_exactly_one_at:
  "(checkSigners signers = None \<longleftrightarrow> (\<forall>s \<in> set signers. count_list s (CHR ''@'') = 1))
   \<and> (\<forall>e. checkSigners signers = Some e \<longrightarrow>
         (\<exists>pre s post. signers = pre @ s # post
            \<and> (\<forall>p \<in> set pre. count_list p (CHR ''@'') = 1)
            \<and> count_list s (CHR ''@'') \<noteq> 1
            \<and> e = Errorf signer_format [ArgStr s]))
   \<and> checkSigners [''@''] = None
   \<and> checkSigners [''alice@''] = None"
proof (intro conjI allI impI)
  show "checkSigners signers = None \<longleftrightarrow> (\<forall>s \<in> set signers. count_list s (CHR ''@'') = 1)"
    by (simp add: checkSigners_None_iff list_all_iff)
next
  fix e
  assume "checkSigners signers = Some e"
  from checkSigners_Some [OF this] show
    "\<exists>pre s post. signers = pre @ s # post
       \<and> (\<forall>p \<in> set pre. count_list p (CHR ''@'') = 1)
       \<and> count_list s (CHR ''@'') \<noteq> 1
       \<and> e = Errorf signer_format [ArgStr s]"
    by (simp add: list_all_iff)
next
  show "checkSigners [''@''] = None"
    by (simp add: length_Split)
next
  show "checkSigners [''alice@''] = None"
    by (simp add: length_Split)
qed

theorem checkSigners_exactly_one_at_witness:
  "checkSigners [''alice@active'', ''bob@owner''] = None
   \<and> checkSigners [''alice@active'', ''alice'', ''a@b@c''] = Some (Errorf signer_format [ArgStr ''alice''])
   \<and> checkSigners [''a@b@c''] = Some (Errorf signer_format [ArgStr ''a@b@c''])"
proof -
  have ok: "\<forall>s \<in> set [''alice@active'', ''bob@owner'']. count_list s (CHR ''@'') = 1"
    by simp
  have 1: "checkSigners [''alice@active'', ''bob@owner''] = None"
    using checkSigners_exactly_one_at [of "[''alice@active'', ''bob@owner'']"] ok by blast
  have 2: "checkSigners [''alice@active'', ''alice'', ''a@b@c'']
             = Some (Errorf signer_format [ArgStr ''alice''])"
    by (simp add: length_Split)
  have 3: "checkSigners [''a@b@c''] = Some (Errorf signer_format [ArgStr ''a@b@c''])"
    by (simp add: length_Split)
  from 1 2 3 show ?thesis by blast
qed

subsection \<open>handleMultiSig\<close>

lemma signKeysLoop_Inr:
  "signKeysLoop S t fs sigs = Inr sigs' \<longleftrightarrow>
     (\<exists>kps. map (\<lambda>f. LoadKeyPair S f (signAlgo S)) fs = map Inr kps
        \<and> sigs' = sigs @ map (GetSignatureOfTx S t) kps)"
proof (induction fs arbitrary: sigs)
  case Nil
  then show ?case by auto
next
  case (Cons f fs)
  show ?case
  proof (cases "LoadKeyPair S f (signAlgo S)")
    case (Inl err)
    then show ?thesis by (auto simp: map_eq_Cons_conv)
  next
    case (Inr kp)
    then show ?thesis
      by (auto simp: Cons.IH map_eq_Cons_conv Cons_eq_map_conv)
  qed
qed

lemma signKeysLoop_Inl:
  "fs = pre @ f # post \<Longrightarrow> list_all (key_loads S) pre \<Longrightarrow>
   LoadKeyPair S f (signAlgo S) = Inl err \<Longrightarrow>
   signKeysLoop S t fs sigs = Inl (Errorf ''sign tx with priv key %v err %v'' [ArgStr f, ArgErr err])"
proof (induction pre arbitrary: fs sigs)
  case Nil
  then show ?case by simp
next
  case (Cons p pre)
  then show ?case
    by (cases "LoadKeyPair S p (signAlgo S)") (simp_all add: key_loads_def)
qed

lemma signKeysLoop_all_load:
  "list_all (key_loads S) fs \<longleftrightarrow> (\<exists>sigs'. signKeysLoop S t fs sigs = Inr sigs')"
proof (induction fs arbitrary: sigs)
  case Nil
  then show ?case by simp
next
  case (Cons f fs)
  then show ?case
    by (cases "LoadKeyPair S f (signAlgo S)") (simp_all add: key_loads_def)
qed

lemma withSignsLoop_Inr:
  "withSignsLoop S t fs sigs = Inr sigs' \<longleftrightarrow>
     list_all (sig_verifies S t) fs
     \<and> map Inr sigs' = map Inr sigs @ map (LoadProtoStructFromJSONFile S) fs"
proof (induction fs arbitrary: sigs)
  case Nil
  then show ?case by (auto simp: inj_map_eq_map [OF inj_Inr])
next
  case (Cons f fs)
  then show ?case
    by (cases "LoadProtoStructFromJSONFile S f") (auto simp: sig_verifies_def)
qed

lemma withSignsLoop_all_verify:
  "list_all (sig_verifies S t) fs \<longleftrightarrow> (\<exists>sigs'. withSignsLoop S t fs sigs = Inr sigs')"
proof (induction fs arbitrary: sigs)
  case Nil
  then show ?case by simp
next
  case (Cons f fs)
  then show ?case
    by (cases "LoadProtoStructFromJSONFile S f") (simp_all add: sig_verifies_def)
qed

lemma withSignsLoop_load_error:
  "fs = pre @ f # post \<Longrightarrow> list_all (sig_verifies S t) pre \<Longrightarrow>
   LoadProtoStructFromJSONFile S f = Inl err \<Longrightarrow>
   withSignsLoop S t fs sigs = Inl (Errorf ''invalid signature file %v'' [ArgStr f])"
proof (induction pre arbitrary: fs sigs)
  case Nil
  then show ?case by simp
next
  case (Cons p pre)
  then show ?case
    by (cases "LoadProtoStructFromJSONFile S p") (simp_all add: sig_verifies_def)
qed

lemma withSignsLoop_verify_error:
  "fs = pre @ f # post \<Longrightarrow> list_all (sig_verifies S t) pre \<Longrightarrow>
   LoadProtoStructFromJSONFile S f = Inr sig \<Longrightarrow> \<not> VerifySigForTx S t sig \<Longrightarrow>
   withSignsLoop S t fs sigs = Inl (Errorf ''sign verify error %v'' [ArgStr f])"
proof (induction pre arbitrary: fs sigs)
  case Nil
  then show ?case by simp
next
  case (Cons p pre)
  then show ?case
    by (cases "LoadProtoStructFromJSONFile S p") (simp_all add: sig_verifies_def)
qed

lemma first_failing:
  "\<not> list_all P xs \<Longrightarrow> \<exists>pre x post. xs = pre @ x # post \<and> list_all P pre \<and> \<not> P x"
proof -
  assume "\<not> list_all P xs"
  then have "\<exists>x \<in> set xs. \<not> P x" by (simp add: list_all_iff)
  from split_list_first_prop [OF this] obtain pre x post where
    "xs = pre @ x # post" "\<not> P x" "\<forall>y \<in> set pre. \<not> \<not> P y"
    by blast
  then have "xs = pre @ x # post \<and> list_all P pre \<and> \<not> P x"
    by (simp add: list_all_iff)
  then show ?thesis by blast
qed

lemma handleMultiSig_signKeys_only:
  "handleMultiSig S t [] signKeys =
     (case signKeysLoop S t signKeys [] of
        Inl err \<Rightarrow> (Some err, t)
      | Inr sigs \<Rightarrow> (None, t\<lparr>Signatures := sigs\<rparr>))"
  by (cases signKeys) (simp_all add: handleMultiSig_def)

lemma handleMultiSig_withSigns_only:
  "handleMultiSig S t withSigns [] =
     (case withSignsLoop S t withSigns [] of
        Inl err \<Rightarrow> (Some err, t)
      | Inr sigs \<Rightarrow> (None, t\<lparr>Signatures := sigs\<rparr>))"
  by (cases withSigns) (simp_all add: handleMultiSig_def)

text \<open>
  C1. For every request and every pair of source lists: when both the attached-signature
  list and the sign-key list are non-empty, \<open>handleMultiSig\<close> fails with the error that one
  of the two must be empty, and leaves the request as it was. No source is read on the
  way: the outcome is the same whatever the loaders, the signer and the verifier are.
\<close>

theorem handleMultiSig_both_modes:
  "withSigns \<noteq> [] \<Longrightarrow> signKeys \<noteq> [] \<Longrightarrow>
     handleMultiSig S t withSigns signKeys =
       (Some (Errorf ''at least one of --sign_keys and --with_signs should be empty'' []), t)
     \<and> handleMultiSig S' t withSigns signKeys = handleMultiSig S t withSigns signKeys"
  by (simp add: handleMultiSig_def)

theorem handleMultiSig_both_modes_witness:
  "handleMultiSig demo_sdk demo_tx [''alice.sig''] [''bob_ed25519''] =
     (Some (Errorf ''at least one of --sign_keys and --with_signs should be empty'' []), demo_tx)
   \<and> Signatures (snd (handleMultiSig demo_sdk demo_tx [''alice.sig''] [''bob_ed25519''])) = []"
proof -
  have a: "[''alice.sig''] \<noteq> []" and b: "[''bob_ed25519''] \<noteq> []" by simp_all
  from handleMultiSig_both_modes [OF a b, of demo_sdk demo_tx demo_sdk]
  show ?thesis by (simp add: demo_tx_def)
qed

text \<open>
  C3. Attach mode, for every list of attached-signature sources (the sign-key list is
  empty). The sources are taken in order.
  \<^item> A source whose record cannot be loaded, all sources before it having verified, makes
    the call fail with the invalid-signature-file error naming that source.
  \<^item> A source whose record loads but does not verify against the request, all sources
    before it having verified, makes the call fail with the verification error naming
    that source.
  \<^item> On every error the request is left as it was, and the error is one of these two, naming
    a source of the list that fails in that way.
  \<^item> The call succeeds exactly when every source loads and verifies; only then is the
    signature list of the request replaced, by the loaded records in source order.
\<close>

theorem handleMultiSig_attach_mode:
  "(\<forall>pre f post err.
      withSigns = pre @ f # post \<and> list_all (sig_verifies S t) pre
        \<and> LoadProtoStructFromJSONFile S f = Inl err \<longrightarrow>
      handleMultiSig S t withSigns [] = (Some (Errorf ''invalid signature file %v'' [ArgStr f]), t))
   \<and> (\<forall>pre f post sig.
      withSigns = pre @ f # post \<and> list_all (sig_verifies S t) pre
        \<and> LoadProtoStructFromJSONFile S f = Inr sig \<and> \<not> VerifySigForTx S t sig \<longrightarrow>
      handleMultiSig S t withSigns [] = (Some (Errorf ''sign verify error %v'' [ArgStr f]), t))
   \<and> (\<forall>err t'. handleMultiSig S t withSigns [] = (Some err, t') \<longrightarrow>
         t' = t
         \<and> (\<exists>f \<in> set withSigns. \<not> sig_verifies S t f
              \<and> err = (if isl (LoadProtoStructFromJSONFile S f)
                        then Errorf ''invalid signature file %v'' [ArgStr f]
                        else Errorf ''sign verify error %v'' [ArgStr f])))
   \<and> (\<forall>t'. handleMultiSig S t withSigns [] = (None, t') \<longrightarrow>
         list_all (sig_verifies S t) withSigns
         \<and> Content t' = Content t
         \<and> map Inr (Signatures t') = map (LoadProtoStructFromJSONFile S) withSigns)
   \<and> (fst (handleMultiSig S t withSigns []) = None \<longleftrightarrow> list_all (sig_verifies S t) withSigns)"
proof (intro conjI allI impI)
  fix pre f post err
  assume "withSigns = pre @ f # post \<and> list_all (sig_verifies S t) pre
        \<and> LoadProtoStructFromJSONFile S f = Inl err"
  then have "withSignsLoop S t withSigns [] = Inl (Errorf ''invalid signature file %v'' [ArgStr f])"
    using withSignsLoop_load_error by blast
  then show "handleMultiSig S t withSigns [] =
      (Some (Errorf ''invalid signature file %v'' [ArgStr f]), t)"
    by (simp add: handleMultiSig_withSigns_only)
next
  fix pre f post sig
  assume "withSigns = pre @ f # post \<and> list_all (sig_verifies S t) pre
        \<and> LoadProtoStructFromJSONFile S f = Inr sig \<and> \<not> VerifySigForTx S t sig"
  then have "withSignsLoop S t withSigns [] = Inl (Errorf ''sign verify error %v'' [ArgStr f])"
    using withSignsLoop_verify_error by blast
  then show "handleMultiSig S t withSigns [] =
      (Some (Errorf ''sign verify error %v'' [ArgStr f]), t)"
    by (simp add: handleMultiSig_withSigns_only)
next
  fix err t'
  assume r: "handleMultiSig S t withSigns [] = (Some err, t')"
  then show "t' = t"
    by (simp add: handleMultiSig_withSigns_only split: sum.splits)
  from r have loop: "withSignsLoop S t withSigns [] = Inl err"
    by (simp add: handleMultiSig_withSigns_only split: sum.splits)
  then have "\<not> list_all (sig_verifies S t) withSigns"
    using withSignsLoop_all_verify [of S t withSigns "[]"] by simp
  from first_failing [OF this] obtain pre f post where
    sp: "withSigns = pre @ f # post" and pre: "list_all (sig_verifies S t) pre"
    and f: "\<not> sig_verifies S t f"
    by blast
  have "err = (if isl (LoadProtoStructFromJSONFile S f)
               then Errorf ''invalid signature file %v'' [ArgStr f]
               else Errorf ''sign verify error %v'' [ArgStr f])"
  proof (cases "LoadProtoStructFromJSONFile S f")
    case (Inl e)
    from withSignsLoop_load_error [OF sp pre Inl, of "[]"] loop Inl show ?thesis by simp
  next
    case (Inr sig)
    with f have "\<not> VerifySigForTx S t sig" by (simp add: sig_verifies_def)
    from withSignsLoop_verify_error [OF sp pre Inr this, of "[]"] loop Inr show ?thesis by simp
  qed
  with sp f show "\<exists>f \<in> set withSigns. \<not> sig_verifies S t f
              \<and> err = (if isl (LoadProtoStructFromJSONFile S f)
                        then Errorf ''invalid signature file %v'' [ArgStr f]
                        else Errorf ''sign verify error %v'' [ArgStr f])"
    by auto
next
  fix t'
  assume r: "handleMultiSig S t withSigns [] = (None, t')"
  then obtain sigs where loop: "withSignsLoop S t withSigns [] = Inr sigs"
    and t': "t' = t\<lparr>Signatures := sigs\<rparr>"
    by (auto simp: handleMultiSig_withSigns_only split: sum.splits)
  from loop show "list_all (sig_verifies S t) withSigns"
    by (simp add: withSignsLoop_Inr)
  from t' show "Content t' = Content t" by simp
  from loop t' show "map Inr (Signatures t') = map (LoadProtoStructFromJSONFile S) withSigns"
    by (simp add: withSignsLoop_Inr)
next
  show "fst (handleMultiSig S t withSigns []) = None \<longleftrightarrow> list_all (sig_verifies S t) withSigns"
  proof
    assume "fst (handleMultiSig S t withSigns []) = None"
    then obtain sigs where "withSignsLoop S t withSigns [] = Inr sigs"
      by (auto simp: handleMultiSig_withSigns_only split: sum.splits)
    then show "list_all (sig_verifies S t) withSigns"
      by (simp add: withSignsLoop_Inr)
  next
    assume "list_all (sig_verifies S t) withSigns"
    then have "\<exists>sigs. withSignsLoop S t withSigns [] = Inr sigs"
      by (simp add: withSignsLoop_all_verify [of S t withSigns "[]"])
    then show "fst (handleMultiSig S t withSigns []) = None"
      by (auto simp: handleMultiSig_withSigns_only)
  qed
qed

lemma demo_alice_verifies: "sig_verifies demo_sdk demo_tx ''alice.sig''"
  by (simp add: sig_verifies_def demo_sdk_def demo_record_def demo_tx_def)

lemma demo_alice_loads: "key_loads demo_sdk ''alice_ed25519''"
  by (simp add: key_loads_def demo_sdk_def demo_key_def)

theorem handleMultiSig_attach_mode_witness:
  "handleMultiSig demo_sdk demo_tx [''alice.sig'', ''missing.sig'', ''forged.sig''] [] =
     (Some (Errorf ''invalid signature file %v'' [ArgStr ''missing.sig'']), demo_tx)
   \<and> handleMultiSig demo_sdk demo_tx [''alice.sig'', ''forged.sig''] [] =
     (Some (Errorf ''sign verify error %v'' [ArgStr ''forged.sig'']), demo_tx)
   \<and> fst (handleMultiSig demo_sdk demo_tx [''alice.sig''] []) = None
   \<and> Signatures (snd (handleMultiSig demo_sdk demo_tx [''alice.sig''] [])) =
       [\<lparr>SigAlgorithm = Ed25519, SigBytes = [1, 7], SigPublicKey = [1]\<rparr>]"
proof -
  have missing: "LoadProtoStructFromJSONFile demo_sdk ''missing.sig'' =
      Inl (ErrorString ''unexpected end of JSON input'')"
    by (simp add: demo_sdk_def demo_record_def)
  have forged: "LoadProtoStructFromJSONFile demo_sdk ''forged.sig'' =
      Inr \<lparr>SigAlgorithm = Ed25519, SigBytes = [9, 9], SigPublicKey = [2]\<rparr>"
    by (simp add: demo_sdk_def demo_record_def)
  have bad: "\<not> VerifySigForTx demo_sdk demo_tx
      \<lparr>SigAlgorithm = Ed25519, SigBytes = [9, 9], SigPublicKey = [2]\<rparr>"
    by (simp add: demo_sdk_def demo_tx_def)
  have pre: "list_all (sig_verifies demo_sdk demo_tx) [''alice.sig'']"
    by (simp add: demo_alice_verifies)
  have 1: "handleMultiSig demo_sdk demo_tx [''alice.sig'', ''missing.sig'', ''forged.sig''] [] =
     (Some (Errorf ''invalid signature file %v'' [ArgStr ''missing.sig'']), demo_tx)"
    using handleMultiSig_attach_mode
      [of "[''alice.sig'', ''missing.sig'', ''forged.sig'']" demo_sdk demo_tx,
       THEN conjunct1, rule_format,
       of "[''alice.sig'']" "''missing.sig''" "[''forged.sig'']"]
      missing pre
    by simp
  have 2: "handleMultiSig demo_sdk demo_tx [''alice.sig'', ''forged.sig''] [] =
     (Some (Errorf ''sign verify error %v'' [ArgStr ''forged.sig'']), demo_tx)"
    using handleMultiSig_attach_mode
      [of "[''alice.sig'', ''forged.sig'']" demo_sdk demo_tx,
       THEN conjunct2, THEN conjunct1, rule_format,
       of "[''alice.sig'']" "''forged.sig''" "[]"]
      forged bad pre
    by simp
  have 3: "fst (handleMultiSig demo_sdk demo_tx [''alice.sig''] []) = None"
    using handleMultiSig_attach_mode [of "[''alice.sig'']" demo_sdk demo_tx] pre
    by blast
  then have "handleMultiSig demo_sdk demo_tx [''alice.sig''] [] =
      (None, snd (handleMultiSig demo_sdk demo_tx [''alice.sig''] []))"
    by (metis prod.collapse)
  then have "map Inr (Signatures (snd (handleMultiSig demo_sdk demo_tx [''alice.sig''] []))) =
      map (LoadProtoStructFromJSONFile demo_sdk) [''alice.sig'']"
    using handleMultiSig_attach_mode [of "[''alice.sig'']" demo_sdk demo_tx] by blast
  then have 4: "Signatures (snd (handleMultiSig demo_sdk demo_tx [''alice.sig''] [])) =
       [\<lparr>SigAlgorithm = Ed25519, SigBytes = [1, 7], SigPublicKey = [1]\<rparr>]"
    by (simp add: demo_sdk_def demo_record_def map_eq_Cons_conv)
  from 1 2 3 4 show ?thesis by blast
qed

text \<open>
  C4. Signing mode, for every list of sign-key sources (the attached-signature list is
  empty). The sources are taken in order.
  \<^item> A source whose key pair cannot be loaded, the key pairs of all sources before it
    having loaded, makes the call fail with the signing error that names that source
    and carries the loader's error.
  \<^item> On every error the request is left as it was: the signatures made for earlier sources
    are dropped.
  \<^item> The call succeeds exactly when every key pair loads. Then the signature list of the
    request is replaced by the signatures of the request under the loaded key pairs, one
    per source and in source order.
\<close>

theorem handleMultiSig_signing_mode:
  "(\<forall>pre f post err.
      signKeys = pre @ f # post \<and> list_all (key_loads S) pre
        \<and> LoadKeyPair S f (signAlgo S) = Inl err \<longrightarrow>
      handleMultiSig S t [] signKeys =
        (Some (Errorf ''sign tx with priv key %v err %v'' [ArgStr f, ArgErr err]), t))
   \<and> (\<forall>err t'. handleMultiSig S t [] signKeys = (Some err, t') \<longrightarrow>
         t' = t
         \<and> (\<exists>f \<in> set signKeys. \<exists>e. LoadKeyPair S f (signAlgo S) = Inl e
              \<and> err = Errorf ''sign tx with priv key %v err %v'' [ArgStr f, ArgErr e]))
   \<and> (\<forall>t'. handleMultiSig S t [] signKeys = (None, t') \<longrightarrow>
         Content t' = Content t
         \<and> length (Signatures t') = length signKeys
         \<and> (\<exists>kps. map (\<lambda>f. LoadKeyPair S f (signAlgo S)) signKeys = map Inr kps
              \<and> Signatures t' = map (GetSignatureOfTx S t) kps))
   \<and> (fst (handleMultiSig S t [] signKeys) = None \<longleftrightarrow> list_all (key_loads S) signKeys)"
proof (intro conjI allI impI)
  fix pre f post err
  assume "signKeys = pre @ f # post \<and> list_all (key_loads S) pre
        \<and> LoadKeyPair S f (signAlgo S) = Inl err"
  then have "signKeysLoop S t signKeys [] =
      Inl (Errorf ''sign tx with priv key %v err %v'' [ArgStr f, ArgErr err])"
    using signKeysLoop_Inl by blast
  then show "handleMultiSig S t [] signKeys =
        (Some (Errorf ''sign tx with priv key %v err %v'' [ArgStr f, ArgErr err]), t)"
    by (simp add: handleMultiSig_signKeys_only)
next
  fix err t'
  assume r: "handleMultiSig S t [] signKeys = (Some err, t')"
  then show "t' = t"
    by (simp add: handleMultiSig_signKeys_only split: sum.splits)
  from r have loop: "signKeysLoop S t signKeys [] = Inl err"
    by (simp add: handleMultiSig_signKeys_only split: sum.splits)
  then have "\<not> list_all (key_loads S) signKeys"
    using signKeysLoop_all_load [of S signKeys t "[]"] by simp
  from first_failing [OF this] obtain pre f post where
    sp: "signKeys = pre @ f # post" and pre: "list_all (key_loads S) pre"
    and f: "\<not> key_loads S f"
    by blast
  from f obtain e where e: "LoadKeyPair S f (signAlgo S) = Inl e"
    by (auto simp: key_loads_def split: sum.splits)
  from signKeysLoop_Inl [OF sp pre e, of t "[]"] loop
  have "err = Errorf ''sign tx with priv key %v err %v'' [ArgStr f, ArgErr e]" by simp
  with sp e show "\<exists>f \<in> set signKeys. \<exists>e. LoadKeyPair S f (signAlgo S) = Inl e
              \<and> err = Errorf ''sign tx with priv key %v err %v'' [ArgStr f, ArgErr e]"
    by auto
next
  fix t'
  assume r: "handleMultiSig S t [] signKeys = (None, t')"
  then obtain sigs where loop: "signKeysLoop S t signKeys [] = Inr sigs"
    and t': "t' = t\<lparr>Signatures := sigs\<rparr>"
    by (auto simp: handleMultiSig_signKeys_only split: sum.splits)
  from loop obtain kps where
    kps: "map (\<lambda>f. LoadKeyPair S f (signAlgo S)) signKeys = map Inr kps"
    and sigs: "sigs = map (GetSignatureOfTx S t) kps"
    by (auto simp: signKeysLoop_Inr)
  from kps have len: "length kps = length signKeys"
    by (metis length_map)
  from t' show "Content t' = Content t" by simp
  from t' sigs len show "length (Signatures t') = length signKeys" by simp
  from t' sigs kps show "\<exists>kps. map (\<lambda>f. LoadKeyPair S f (signAlgo S)) signKeys = map Inr kps
              \<and> Signatures t' = map (GetSignatureOfTx S t) kps"
    by auto
next
  show "fst (handleMultiSig S t [] signKeys) = None \<longleftrightarrow> list_all (key_loads S) signKeys"
  proof
    assume "fst (handleMultiSig S t [] signKeys) = None"
    then have "\<exists>sigs. signKeysLoop S t signKeys [] = Inr sigs"
      by (auto simp: handleMultiSig_signKeys_only split: sum.splits)
    then show "list_all (key_loads S) signKeys"
      by (simp add: signKeysLoop_all_load [of S signKeys t "[]"])
  next
    assume "list_all (key_loads S) signKeys"
    then have "\<exists>sigs. signKeysLoop S t signKeys [] = Inr sigs"
      by (simp add: signKeysLoop_all_load [of S signKeys t "[]"])
    then show "fst (handleMultiSig S t [] signKeys) = None"
      by (auto simp: handleMultiSig_signKeys_only)
  qed
qed

theorem handleMultiSig_signing_mode_witness:
  "handleMultiSig demo_sdk demo_tx [] [''alice_ed25519'', ''carol_ed25519'', ''bob_ed25519''] =
     (Some (Errorf ''sign tx with priv key %v err %v''
        [ArgStr ''carol_ed25519'', ArgErr (ErrorString ''no such file or directory'')]), demo_tx)
   \<and> fst (handleMultiSig demo_sdk demo_tx [] [''alice_ed25519'', ''bob_ed25519'']) = None
   \<and> length (Signatures (snd (handleMultiSig demo_sdk demo_tx [] [''alice_ed25519'', ''bob_ed25519'']))) = 2
   \<and> handleMultiSig demo_sdk demo_tx [] [''bob_ed25519'', ''alice_ed25519''] =
     (None, demo_tx\<lparr>Signatures :=
        [\<lparr>SigAlgorithm = Ed25519, SigBytes = [2, 7], SigPublicKey = [2]\<rparr>,
         \<lparr>SigAlgorithm = Ed25519, SigBytes = [1, 7], SigPublicKey = [1]\<rparr>]\<rparr>)"
proof -
  have carol: "LoadKeyPair demo_sdk ''carol_ed25519'' (signAlgo demo_sdk) =
      Inl (ErrorString ''no such file or directory'')"
    by (simp add: demo_sdk_def demo_key_def)
  have pre: "list_all (key_loads demo_sdk) [''alice_ed25519'']"
    by (simp add: demo_alice_loads)
  have both: "list_all (key_loads demo_sdk) [''alice_ed25519'', ''bob_ed25519'']"
    by (simp add: key_loads_def demo_sdk_def demo_key_def)
  have 1: "handleMultiSig demo_sdk demo_tx [] [''alice_ed25519'', ''carol_ed25519'', ''bob_ed25519''] =
     (Some (Errorf ''sign tx with priv key %v err %v''
        [ArgStr ''carol_ed25519'', ArgErr (ErrorString ''no such file or directory'')]), demo_tx)"
    using handleMultiSig_signing_mode
      [of "[''alice_ed25519'', ''carol_ed25519'', ''bob_ed25519'']" demo_sdk demo_tx,
       THEN conjunct1, rule_format,
       of "[''alice_ed25519'']" "''carol_ed25519''" "[''bob_ed25519'']"]
      carol pre
    by simp
  have 2: "fst (handleMultiSig demo_sdk demo_tx [] [''alice_ed25519'', ''bob_ed25519'']) = None"
    using handleMultiSig_signing_mode [of "[''alice_ed25519'', ''bob_ed25519'']" demo_sdk demo_tx]
      both
    by blast
  then have "handleMultiSig demo_sdk demo_tx [] [''alice_ed25519'', ''bob_ed25519''] =
      (None, snd (handleMultiSig demo_sdk demo_tx [] [''alice_ed25519'', ''bob_ed25519'']))"
    by (metis prod.collapse)
  then have 3: "length (Signatures (snd (handleMultiSig demo_sdk demo_tx []
      [''alice_ed25519'', ''bob_ed25519'']))) = length [''alice_ed25519'', ''bob_ed25519'']"
    using handleMultiSig_signing_mode [of "[''alice_ed25519'', ''bob_ed25519'']" demo_sdk demo_tx]
    by blast
  have 4: "handleMultiSig demo_sdk demo_tx [] [''bob_ed25519'', ''alice_ed25519''] =
     (None, demo_tx\<lparr>Signatures :=
        [\<lparr>SigAlgorithm = Ed25519, SigBytes = [2, 7], SigPublicKey = [2]\<rparr>,
         \<lparr>SigAlgorithm = Ed25519, SigBytes = [1, 7], SigPublicKey = [1]\<rparr>]\<rparr>)"
    by (simp add: handleMultiSig_def demo_sdk_def demo_key_def demo_tx_def)
  from 1 2 3 4 show ?thesis by simp
qed

subsection \<open>GetSignAlgoByName\<close>

text \<open>
  C10. For every name other than \<open>secp256k1\<close>, be it \<open>ed25519\<close>, the empty string or an
  unknown or misspelled name, \<open>GetSignAlgoByName\<close> returns \<open>Ed25519\<close>. It returns an
  algorithm for every name: its result type has no error.
\<close>

theorem GetSignAlgoByName_default_Ed25519:
  "name \<noteq> ''secp256k1'' \<Longrightarrow> GetSignAlgoByName name = Ed25519"
  by (simp add: GetSignAlgoByName_def)

theorem GetSignAlgoByName_default_Ed25519_witness:
  "GetSignAlgoByName ''ed25519'' = Ed25519
   \<and> GetSignAlgoByName '''' = Ed25519
   \<and> GetSignAlgoByName ''secp256k'' = Ed25519
   \<and> GetSignAlgoByName ''SECP256K1'' = Ed25519"
  using GetSignAlgoByName_default_Ed25519 [of "''ed25519''"]
    GetSignAlgoByName_default_Ed25519 [of "''''"]
    GetSignAlgoByName_default_Ed25519 [of "''secp256k''"]
    GetSignAlgoByName_default_Ed25519 [of "''SECP256K1''"]
  by simp

subsection \<open>ParseAmountLimit\<close>

lemma Split_Cons_case:
  "Split (c # s) sep =
     (if c = sep then [] # Split s sep
      else (case Split s sep of [] \<Rightarrow> [[c]] | p # ps \<Rightarrow> (c # p) # ps))"
  by (cases "Split s sep") (simp_all add: Split_Cons Split_not_Nil)

lemmas Split_eval = Split_Nil Split_Cons_case

lemma Split_no_sep: "count_list s sep = 0 \<Longrightarrow> Split s sep = [s]"
  by (induction s) (simp_all add: Split_Nil Split_Cons split: if_splits)

lemma Split_one_sep:
  "count_list s sep = 1 \<Longrightarrow>
     Split s sep = [takeWhile (\<lambda>c. c \<noteq> sep) s, tl (dropWhile (\<lambda>c. c \<noteq> sep) s)]"
proof (induction s)
  case Nil
  then show ?case by simp
next
  case (Cons x xs)
  show ?case
  proof (cases "x = sep")
    case True
    with Cons.prems have "count_list xs sep = 0" by simp
    with True show ?thesis by (simp add: Split_Cons Split_no_sep)
  next
    case False
    with Cons.prems have "count_list xs sep = 1" by simp
    from Cons.IH [OF this] False show ?thesis by (simp add: Split_Cons)
  qed
qed

lemma limit_fields:
  "count_list gram (CHR '':'') = 1 \<Longrightarrow>
     Split gram (CHR '':'') = [limit_token gram, limit_value gram]"
  by (simp add: Split_one_sep limit_token_def limit_value_def)

lemma ParseAmountLimit_loop_pass:
  "group_passes pf gram \<Longrightarrow>
     ParseAmountLimit_loop pf (gram # splits) result =
       ParseAmountLimit_loop pf splits (result @ [to_limit gram])"
  by (auto simp: group_passes_def value_passes_def limit_fields to_limit_def Let_def
      split: prod.splits option.splits)

lemma ParseAmountLimit_loop_syntax:
  "length (Split gram (CHR '':'')) \<noteq> 2 \<Longrightarrow>
     ParseAmountLimit_loop pf (gram # splits) result =
       Inl (Errorf ''invalid amount limit %v'' [ArgStr gram])"
  by simp

lemma ParseAmountLimit_loop_value:
  "count_list gram (CHR '':'') = 1 \<Longrightarrow> limit_value gram \<noteq> ''unlimited'' \<Longrightarrow>
   pf (limit_value gram) = (f, Some err) \<Longrightarrow>
     ParseAmountLimit_loop pf (gram # splits) result =
       Inl (Errorf ''invalid amount limit %v %v'' [ArgFloat f, ArgErr err])"
  by (simp add: limit_fields)

lemma ParseAmountLimit_loop_fail:
  "\<not> group_passes pf gram \<Longrightarrow> \<exists>e. ParseAmountLimit_loop pf (gram # splits) result = Inl e"
  by (auto simp: group_passes_def value_passes_def limit_fields length_Split Let_def
      split: prod.splits option.splits)

lemma ParseAmountLimit_loop_Inr:
  "ParseAmountLimit_loop pf splits result = Inr r \<longleftrightarrow>
     list_all (group_passes pf) splits \<and> r = result @ map to_limit splits"
proof (induction splits arbitrary: result)
  case Nil
  then show ?case by auto
next
  case (Cons gram splits)
  show ?case
  proof (cases "group_passes pf gram")
    case True
    then show ?thesis
      by (simp add: ParseAmountLimit_loop_pass Cons.IH del: ParseAmountLimit_loop.simps)
  next
    case False
    with ParseAmountLimit_loop_fail [OF False, of splits result] show ?thesis by auto
  qed
qed

lemma ParseAmountLimit_loop_first:
  "splits = pre @ rest \<Longrightarrow> list_all (group_passes pf) pre \<Longrightarrow>
     ParseAmountLimit_loop pf splits result =
       ParseAmountLimit_loop pf rest (result @ map to_limit pre)"
proof (induction pre arbitrary: splits result)
  case Nil
  then show ?case by simp
next
  case (Cons p pre)
  then show ?case
    by (simp add: ParseAmountLimit_loop_pass del: ParseAmountLimit_loop.simps)
qed

lemma ParseAmountLimit_nonempty:
  "limitStr \<noteq> [] \<Longrightarrow>
     ParseAmountLimit pf limitStr = ParseAmountLimit_loop pf (Split limitStr (CHR ''|'')) []"
  by (simp add: ParseAmountLimit_def)

lemmas ParseFloat_eval =
  ParseFloat_def special_def readFloat_def read_exponent_def underscoreOK_def
  is_digit_def is_hex_letter_def digit_val_def overflows_def float64_overflow_def to_lower_def

lemma ParseFloat_10_5: "ParseFloat ''10.5'' = (F64_Nearest ''10.5'', None)"
  by (simp add: ParseFloat_eval)

lemma ParseFloat_abc:
  "ParseFloat ''abc'' = (F64_Zero, Some (NumError ''ParseFloat'' ''abc'' ErrSyntax))"
  by (simp add: ParseFloat_eval)

lemma ParseFloat_inf: "ParseFloat ''inf'' = (F64_PosInf, None)"
  by (simp add: ParseFloat_eval)

lemma ParseFloat_NaN: "ParseFloat ''NaN'' = (F64_NaN, None)"
  by (simp add: ParseFloat_eval)

text \<open>
  C5. \<open>ParseAmountLimit\<close> returns the empty list for the empty string. Any other input is
  split at every \<open>|\<close> into groups, taken in order, and a group is split at its colons.
  \<^item> A group that does not give exactly two parts (it has no colon, or more than one),
    all groups before it having passed, makes the call fail with the invalid-amount-limit
    error naming that group.
  \<^item> In a successful call every group gives exactly two parts, the text before its
    first colon and the text after it; they are the token and the value of the entry at
    the position of the group.
  \<^item> With the library's \<open>ParseFloat\<close>: \<open>iost:unlimited\<close> gives one entry, \<open>iost:10.5|ram:unlimited\<close>
    gives two entries in that order, \<open>iost\<close> and \<open>iost:1:2\<close> fail with the error naming the
    group, and \<open>iost:abc\<close> fails with the error that carries the number and the error of
    \<open>ParseFloat\<close>.
\<close>

theorem ParseAmountLimit_grammar:
  "ParseAmountLimit pf [] = Inr []
   \<and> (\<forall>pre gram post.
        limitStr \<noteq> [] \<and> Split limitStr (CHR ''|'') = pre @ gram # post
          \<and> list_all (group_passes pf) pre \<and> length (Split gram (CHR '':'')) \<noteq> 2 \<longrightarrow>
        ParseAmountLimit pf limitStr = Inl (Errorf ''invalid amount limit %v'' [ArgStr gram]))
   \<and> (\<forall>result.
        limitStr \<noteq> [] \<and> ParseAmountLimit pf limitStr = Inr result \<longrightarrow>
        list_all (\<lambda>gram. Split gram (CHR '':'') = [limit_token gram, limit_value gram])
          (Split limitStr (CHR ''|''))
        \<and> map Token result = map limit_token (Split limitStr (CHR ''|''))
        \<and> map Value result = map limit_value (Split limitStr (CHR ''|'')))
   \<and> ParseAmountLimit ParseFloat ''iost:unlimited'' =
        Inr [\<lparr>Token = ''iost'', Value = ''unlimited''\<rparr>]
   \<and> ParseAmountLimit ParseFloat ''iost:10.5|ram:unlimited'' =
        Inr [\<lparr>Token = ''iost'', Value = ''10.5''\<rparr>, \<lparr>Token = ''ram'', Value = ''unlimited''\<rparr>]
   \<and> ParseAmountLimit ParseFloat ''iost'' =
        Inl (Errorf ''invalid amount limit %v'' [ArgStr ''iost''])
   \<and> ParseAmountLimit ParseFloat ''iost:1:2'' =
        Inl (Errorf ''invalid amount limit %v'' [ArgStr ''iost:1:2''])
   \<and> ParseAmountLimit ParseFloat ''iost:abc'' =
        Inl (Errorf ''invalid amount limit %v %v''
               [ArgFloat F64_Zero, ArgErr (NumError ''ParseFloat'' ''abc'' ErrSyntax)])"
proof (intro conjI allI impI)
  show "ParseAmountLimit pf [] = Inr []"
    by (simp add: ParseAmountLimit_def)
next
  fix pre gram post
  assume a: "limitStr \<noteq> [] \<and> Split limitStr (CHR ''|'') = pre @ gram # post
          \<and> list_all (group_passes pf) pre \<and> length (Split gram (CHR '':'')) \<noteq> 2"
  then have "ParseAmountLimit pf limitStr =
      ParseAmountLimit_loop pf (gram # post) ([] @ map to_limit pre)"
    using ParseAmountLimit_loop_first [of "Split limitStr (CHR ''|'')" pre "gram # post" pf "[]"]
    by (simp add: ParseAmountLimit_nonempty)
  with a show "ParseAmountLimit pf limitStr = Inl (Errorf ''invalid amount limit %v'' [ArgStr gram])"
    by (simp add: ParseAmountLimit_loop_syntax del: ParseAmountLimit_loop.simps)
next
  fix result
  assume a: "limitStr \<noteq> [] \<and> ParseAmountLimit pf limitStr = Inr result"
  then have ne: "limitStr \<noteq> []" and res: "ParseAmountLimit pf limitStr = Inr result"
    by blast+
  from res have "ParseAmountLimit_loop pf (Split limitStr (CHR ''|'')) [] = Inr result"
    by (simp add: ParseAmountLimit_nonempty [OF ne])
  then have all: "list_all (group_passes pf) (Split limitStr (CHR ''|''))"
    and r: "result = map to_limit (Split limitStr (CHR ''|''))"
    by (simp_all add: ParseAmountLimit_loop_Inr)
  from all show "list_all (\<lambda>gram. Split gram (CHR '':'') = [limit_token gram, limit_value gram])
          (Split limitStr (CHR ''|''))"
    by (simp add: list_all_iff group_passes_def limit_fields)
  from r show "map Token result = map limit_token (Split limitStr (CHR ''|''))"
    by (simp add: to_limit_def)
  from r show "map Value result = map limit_value (Split limitStr (CHR ''|''))"
    by (simp add: to_limit_def)
next
  show "ParseAmountLimit ParseFloat ''iost:unlimited'' =
        Inr [\<lparr>Token = ''iost'', Value = ''unlimited''\<rparr>]"
    by (simp add: ParseAmountLimit_def Split_eval)
next
  show "ParseAmountLimit ParseFloat ''iost:10.5|ram:unlimited'' =
        Inr [\<lparr>Token = ''iost'', Value = ''10.5''\<rparr>, \<lparr>Token = ''ram'', Value = ''unlimited''\<rparr>]"
    by (simp add: ParseAmountLimit_def Split_eval ParseFloat_10_5)
next
  show "ParseAmountLimit ParseFloat ''iost'' =
        Inl (Errorf ''invalid amount limit %v'' [ArgStr ''iost''])"
    by (simp add: ParseAmountLimit_def Split_eval)
next
  show "ParseAmountLimit ParseFloat ''iost:1:2'' =
        Inl (Errorf ''invalid amount limit %v'' [ArgStr ''iost:1:2''])"
    by (simp add: ParseAmountLimit_def Split_eval)
next
  show "ParseAmountLimit ParseFloat ''iost:abc'' =
        Inl (Errorf ''invalid amount limit %v %v''
               [ArgFloat F64_Zero, ArgErr (NumError ''ParseFloat'' ''abc'' ErrSyntax)])"
    by (simp add: ParseAmountLimit_def Split_eval ParseFloat_abc)
qed

lemma group_passes_iost_10_5: "group_passes ParseFloat ''iost:10.5''"
  by (simp add: group_passes_def value_passes_def limit_value_def ParseFloat_10_5)

theorem ParseAmountLimit_grammar_witness:
  "ParseAmountLimit ParseFloat ''iost:10.5|ram|gas:1'' =
     Inl (Errorf ''invalid amount limit %v'' [ArgStr ''ram''])
   \<and> ParseAmountLimit ParseFloat ''iost:10.5|ram:1:2'' =
     Inl (Errorf ''invalid amount limit %v'' [ArgStr ''ram:1:2''])
   \<and> map Token (projr (ParseAmountLimit ParseFloat ''iost:10.5|ram:unlimited'')) = [''iost'', ''ram'']
   \<and> map Value (projr (ParseAmountLimit ParseFloat ''iost:10.5|ram:unlimited'')) = [''10.5'', ''unlimited'']"
proof -
  note T = ParseAmountLimit_grammar
  have s1: "Split ''iost:10.5|ram|gas:1'' (CHR ''|'') = [''iost:10.5''] @ ''ram'' # [''gas:1'']"
    by (simp add: Split_eval)
  have n1: "length (Split ''ram'' (CHR '':'')) \<noteq> 2"
    by (simp add: length_Split)
  have pre: "list_all (group_passes ParseFloat) [''iost:10.5'']"
    by (simp add: group_passes_iost_10_5)
  have 1: "ParseAmountLimit ParseFloat ''iost:10.5|ram|gas:1'' =
     Inl (Errorf ''invalid amount limit %v'' [ArgStr ''ram''])"
    using T [of ParseFloat "''iost:10.5|ram|gas:1''", THEN conjunct2, THEN conjunct1, rule_format,
             of "[''iost:10.5'']" "''ram''" "[''gas:1'']"] s1 n1 pre
    by simp
  have s2: "Split ''iost:10.5|ram:1:2'' (CHR ''|'') = [''iost:10.5''] @ ''ram:1:2'' # []"
    by (simp add: Split_eval)
  have n2: "length (Split ''ram:1:2'' (CHR '':'')) \<noteq> 2"
    by (simp add: length_Split)
  have 2: "ParseAmountLimit ParseFloat ''iost:10.5|ram:1:2'' =
     Inl (Errorf ''invalid amount limit %v'' [ArgStr ''ram:1:2''])"
    using T [of ParseFloat "''iost:10.5|ram:1:2''", THEN conjunct2, THEN conjunct1, rule_format,
             of "[''iost:10.5'']" "''ram:1:2''" "[]"] s2 n2 pre
    by simp
  have ok: "ParseAmountLimit ParseFloat ''iost:10.5|ram:unlimited'' =
      Inr (projr (ParseAmountLimit ParseFloat ''iost:10.5|ram:unlimited''))"
    using T [of ParseFloat] by simp
  have s3: "Split ''iost:10.5|ram:unlimited'' (CHR ''|'') = [''iost:10.5'', ''ram:unlimited'']"
    by (simp add: Split_eval)
  have 3: "map Token (projr (ParseAmountLimit ParseFloat ''iost:10.5|ram:unlimited'')) =
      map limit_token (Split ''iost:10.5|ram:unlimited'' (CHR ''|''))"
    and 4: "map Value (projr (ParseAmountLimit ParseFloat ''iost:10.5|ram:unlimited'')) =
      map limit_value (Split ''iost:10.5|ram:unlimited'' (CHR ''|''))"
    using T [of ParseFloat "''iost:10.5|ram:unlimited''", THEN conjunct2, THEN conjunct2,
             THEN conjunct1, rule_format,
             of "projr (ParseAmountLimit ParseFloat ''iost:10.5|ram:unlimited'')"] ok
    by simp_all
  from 1 2 3 4 show ?thesis
    by (simp add: s3 limit_token_def limit_value_def)
qed


text \<open>
  C6, as the code has it. For every non-empty input and every \<open>ParseFloat\<close>:
  \<^item> the call succeeds exactly when every group has one colon and a value that is
    either the literal \<open>unlimited\<close> or a string for which \<open>ParseFloat\<close> returns no error;
  \<^item> the result then has one entry per group, in the order of the input, and each entry
    keeps the token and the value as the strings of the input (what \<open>ParseFloat\<close>
    computed is dropped);
  \<^item> a group with one colon whose value is not \<open>unlimited\<close> and for which \<open>ParseFloat\<close>
    returns an error, all groups before it having passed, makes the call fail with
    the invalid-amount-limit error that carries the number and the error of \<open>ParseFloat\<close>;
    a group that does not pass makes the whole call fail wherever it stands;
  \<^item> \<open>unlimited\<close> is not validated: when every value is \<open>unlimited\<close> the result is the
    same for every \<open>ParseFloat\<close>.
  The validation is \<open>ParseFloat\<close> returning no error, which is weaker than the value
  being a finite decimal number.
\<close>

theorem ParseAmountLimit_values:
  "limitStr \<noteq> [] \<Longrightarrow>
     (ParseAmountLimit pf limitStr = Inr result \<longleftrightarrow>
        list_all (group_passes pf) (Split limitStr (CHR ''|''))
        \<and> result = map to_limit (Split limitStr (CHR ''|'')))
     \<and> (\<forall>pre gram post f err.
          Split limitStr (CHR ''|'') = pre @ gram # post \<and> list_all (group_passes pf) pre
            \<and> count_list gram (CHR '':'') = 1 \<and> limit_value gram \<noteq> ''unlimited''
            \<and> pf (limit_value gram) = (f, Some err) \<longrightarrow>
          ParseAmountLimit pf limitStr =
            Inl (Errorf ''invalid amount limit %v %v'' [ArgFloat f, ArgErr err]))
     \<and> (list_all (group_passes pf) (Split limitStr (CHR ''|''))
          \<or> (\<exists>e. ParseAmountLimit pf limitStr = Inl e))
     \<and> (\<forall>pf'.
          list_all (\<lambda>gram. count_list gram (CHR '':'') = 1 \<and> limit_value gram = ''unlimited'')
            (Split limitStr (CHR ''|'')) \<longrightarrow>
          ParseAmountLimit pf' limitStr = Inr (map to_limit (Split limitStr (CHR ''|''))))"
proof (intro conjI allI impI)
  assume ne: "limitStr \<noteq> []"
  show "ParseAmountLimit pf limitStr = Inr result \<longleftrightarrow>
        list_all (group_passes pf) (Split limitStr (CHR ''|''))
        \<and> result = map to_limit (Split limitStr (CHR ''|''))"
    by (simp add: ParseAmountLimit_nonempty [OF ne] ParseAmountLimit_loop_Inr)
next
  fix pre gram post f err
  assume ne: "limitStr \<noteq> []"
  assume a: "Split limitStr (CHR ''|'') = pre @ gram # post \<and> list_all (group_passes pf) pre
            \<and> count_list gram (CHR '':'') = 1 \<and> limit_value gram \<noteq> ''unlimited''
            \<and> pf (limit_value gram) = (f, Some err)"
  then have "ParseAmountLimit pf limitStr =
      ParseAmountLimit_loop pf (gram # post) ([] @ map to_limit pre)"
    using ParseAmountLimit_loop_first [of "Split limitStr (CHR ''|'')" pre "gram # post" pf "[]"]
    by (simp add: ParseAmountLimit_nonempty [OF ne])
  moreover from a have "ParseAmountLimit_loop pf (gram # post) ([] @ map to_limit pre) =
      Inl (Errorf ''invalid amount limit %v %v'' [ArgFloat f, ArgErr err])"
    using ParseAmountLimit_loop_value [of gram pf f err post "[] @ map to_limit pre"] by blast
  ultimately show "ParseAmountLimit pf limitStr =
      Inl (Errorf ''invalid amount limit %v %v'' [ArgFloat f, ArgErr err])"
    by simp
next
  assume ne: "limitStr \<noteq> []"
  show "list_all (group_passes pf) (Split limitStr (CHR ''|''))
          \<or> (\<exists>e. ParseAmountLimit pf limitStr = Inl e)"
  proof (cases "ParseAmountLimit pf limitStr")
    case (Inl e)
    then show ?thesis by blast
  next
    case (Inr r)
    then show ?thesis
      by (simp add: ParseAmountLimit_nonempty [OF ne] ParseAmountLimit_loop_Inr)
  qed
next
  fix pf'
  assume ne: "limitStr \<noteq> []"
  assume "list_all (\<lambda>gram. count_list gram (CHR '':'') = 1 \<and> limit_value gram = ''unlimited'')
            (Split limitStr (CHR ''|''))"
  then have "list_all (group_passes pf') (Split limitStr (CHR ''|''))"
    by (simp add: list_all_iff group_passes_def value_passes_def)
  then show "ParseAmountLimit pf' limitStr = Inr (map to_limit (Split limitStr (CHR ''|'')))"
    by (simp add: ParseAmountLimit_nonempty [OF ne] ParseAmountLimit_loop_Inr)
qed

theorem ParseAmountLimit_values_witness:
  "ParseAmountLimit ParseFloat ''iost:10.5|ram:unlimited'' =
     Inr [\<lparr>Token = ''iost'', Value = ''10.5''\<rparr>, \<lparr>Token = ''ram'', Value = ''unlimited''\<rparr>]
   \<and> ParseAmountLimit ParseFloat ''iost:10.5|ram:abc'' =
     Inl (Errorf ''invalid amount limit %v %v''
            [ArgFloat F64_Zero, ArgErr (NumError ''ParseFloat'' ''abc'' ErrSyntax)])
   \<and> ParseAmountLimit (\<lambda>s. (F64_Zero, Some ErrSyntax)) ''iost:unlimited|ram:unlimited'' =
     Inr [\<lparr>Token = ''iost'', Value = ''unlimited''\<rparr>, \<lparr>Token = ''ram'', Value = ''unlimited''\<rparr>]"
proof -
  note T = ParseAmountLimit_values
  have ne1: "''iost:10.5|ram:unlimited'' \<noteq> []" by simp
  have s1: "Split ''iost:10.5|ram:unlimited'' (CHR ''|'') = [''iost:10.5'', ''ram:unlimited'']"
    by (simp add: Split_eval)
  have p1: "list_all (group_passes ParseFloat) [''iost:10.5'', ''ram:unlimited'']"
    by (simp add: group_passes_iost_10_5) (simp add: group_passes_def value_passes_def limit_value_def)
  have 1: "ParseAmountLimit ParseFloat ''iost:10.5|ram:unlimited'' =
     Inr (map to_limit [''iost:10.5'', ''ram:unlimited''])"
    using T [OF ne1, of ParseFloat "map to_limit [''iost:10.5'', ''ram:unlimited'']"] s1 p1
    by simp
  have ne2: "''iost:10.5|ram:abc'' \<noteq> []" by simp
  have s2: "Split ''iost:10.5|ram:abc'' (CHR ''|'') = [''iost:10.5''] @ ''ram:abc'' # []"
    by (simp add: Split_eval)
  have v2: "limit_value ''ram:abc'' = ''abc''"
    by (simp add: limit_value_def)
  have 2: "ParseAmountLimit ParseFloat ''iost:10.5|ram:abc'' =
     Inl (Errorf ''invalid amount limit %v %v''
            [ArgFloat F64_Zero, ArgErr (NumError ''ParseFloat'' ''abc'' ErrSyntax)])"
    using T [OF ne2, of ParseFloat, THEN conjunct2, THEN conjunct1, rule_format,
             of "[''iost:10.5'']" "''ram:abc''" "[]" F64_Zero
                "NumError ''ParseFloat'' ''abc'' ErrSyntax"]
      s2 v2 ParseFloat_abc group_passes_iost_10_5
    by simp
  have ne3: "''iost:unlimited|ram:unlimited'' \<noteq> []" by simp
  have s3: "Split ''iost:unlimited|ram:unlimited'' (CHR ''|'') =
      [''iost:unlimited'', ''ram:unlimited'']"
    by (simp add: Split_eval)
  have 3: "ParseAmountLimit (\<lambda>s. (F64_Zero, Some ErrSyntax)) ''iost:unlimited|ram:unlimited'' =
     Inr (map to_limit [''iost:unlimited'', ''ram:unlimited''])"
    using T [OF ne3, of ParseFloat, THEN conjunct2, THEN conjunct2, THEN conjunct2, rule_format,
             of "\<lambda>s. (F64_Zero, Some ErrSyntax)"] s3
    by (simp add: limit_value_def)
  from 1 2 3 show ?thesis
    by (simp add: to_limit_def limit_token_def limit_value_def)
qed

text \<open>
  C6, against the reading that a value other than \<open>unlimited\<close> must be a finite decimal
  number: the library's \<open>ParseFloat\<close> returns no error for the spellings of the infinities
  and of NaN, so \<open>inf\<close> and \<open>NaN\<close> pass the validation and are stored.
\<close>

theorem ParseAmountLimit_accepts_non_finite:
  "ParseAmountLimit ParseFloat ''iost:inf'' = Inr [\<lparr>Token = ''iost'', Value = ''inf''\<rparr>]
   \<and> ParseFloat ''inf'' = (F64_PosInf, None)
   \<and> ParseAmountLimit ParseFloat ''iost:NaN'' = Inr [\<lparr>Token = ''iost'', Value = ''NaN''\<rparr>]
   \<and> ParseFloat ''NaN'' = (F64_NaN, None)"
  by (simp add: ParseAmountLimit_def Split_eval ParseFloat_inf ParseFloat_NaN)


subsection \<open>loadAccountByName\<close>

text \<open>
  C8. For every account name, once the home directory is known: \<open>loadAccountByName\<close>
  first looks for the key store \<open>name.json\<close> in the account directory and, when
  \<^verbatim>\<open>os.Stat\<close> finds it, loads the account from it. Only when it is not found does it look
  for the key files \<open>name_ed25519\<close> and \<open>name_secp256k1\<close>, in this order, and loads the
  account from the first that is found. When none of the three is found it fails with
  the error that the account does not exist.
\<close>

theorem loadAccountByName_precedence:
  "HomeDir E = Inr home \<Longrightarrow>
     loadAccountByName E name ensureDecrypt =
       (let dir = home @ ''/.iwallet'' in
        if Stat E (dir @ ''/'' @ name @ ''.json'') = None
        then loadAccountFromKeyStore E (dir @ ''/'' @ name @ ''.json'') ensureDecrypt
        else if Stat E (dir @ ''/'' @ name @ ''_ed25519'') = None
        then loadAccountFromKeyPair E (dir @ ''/'' @ name @ ''_ed25519'')
        else if Stat E (dir @ ''/'' @ name @ ''_secp256k1'') = None
        then loadAccountFromKeyPair E (dir @ ''/'' @ name @ ''_secp256k1'')
        else Inl (Errorf ''account not exist'' []))"
  by (simp add: loadAccountByName_def getAccountDir_def ValidSignAlgos_def Let_def)

theorem loadAccountByName_precedence_witness:
  "loadAccountByName
     (demo_storage [''/home/u/.iwallet/alice.json'', ''/home/u/.iwallet/alice_ed25519'',
                    ''/home/u/.iwallet/alice_secp256k1'']) ''alice'' True =
     Inr (FromKeyStore ''/home/u/.iwallet/alice.json'' True)
   \<and> loadAccountByName
     (demo_storage [''/home/u/.iwallet/alice_secp256k1'', ''/home/u/.iwallet/alice_ed25519''])
     ''alice'' True =
     Inr (FromKeyPair ''/home/u/.iwallet/alice_ed25519'')
   \<and> loadAccountByName (demo_storage [''/home/u/.iwallet/alice_secp256k1'']) ''alice'' True =
     Inr (FromKeyPair ''/home/u/.iwallet/alice_secp256k1'')
   \<and> loadAccountByName (demo_storage [''/home/u/.iwallet/bob.json'']) ''alice'' True =
     Inl (Errorf ''account not exist'' [])"
proof -
  have h: "\<And>present. HomeDir (demo_storage present) = Inr ''/home/u''"
    by (simp add: demo_storage_def)
  show ?thesis
    using loadAccountByName_precedence
        [OF h, of "[''/home/u/.iwallet/alice.json'', ''/home/u/.iwallet/alice_ed25519'',
                    ''/home/u/.iwallet/alice_secp256k1'']" "''alice''" True]
      loadAccountByName_precedence
        [OF h, of "[''/home/u/.iwallet/alice_secp256k1'', ''/home/u/.iwallet/alice_ed25519'']"
           "''alice''" True]
      loadAccountByName_precedence
        [OF h, of "[''/home/u/.iwallet/alice_secp256k1'']" "''alice''" True]
      loadAccountByName_precedence
        [OF h, of "[''/home/u/.iwallet/bob.json'']" "''alice''" True]
    by (simp add: demo_storage_def)
qed


subsection \<open>SaveAccount\<close>









lemma OpenFile_other: "other \<noteq> name \<Longrightarrow> files (snd (OpenFile E name flag perm w)) other = files w other"
  by (simp add: OpenFile_def split: option.splits)

lemma OpenFile_fail:
  "open_error E name = Some e \<Longrightarrow> OpenFile E name flag perm w = (Inl (PathError ''open'' name e), w)"
  by (simp add: OpenFile_def)



lemma WriteString_other: "other \<noteq> name \<Longrightarrow> files (snd (WriteString E name s w)) other = files w other"
  by (simp add: WriteString_def split: option.splits prod.splits)

lemma OpenFile_fst_ok:
  "open_error E name = None \<Longrightarrow> O_CREATE \<in> flag \<Longrightarrow> fst (OpenFile E name flag perm w) = Inr name"
  by (simp add: OpenFile_def split: option.splits)

lemma OpenFile_opened:
  "open_error E name = None \<Longrightarrow> O_CREATE \<in> flag \<Longrightarrow> O_TRUNC \<in> flag \<Longrightarrow>
     files (snd (OpenFile E name flag perm w)) name =
       Some \<lparr>Perm = (case files w name of None \<Rightarrow> perm AND NOT (umask w) | Some f \<Rightarrow> Perm f),
             Contents = []\<rparr>"
  by (simp add: OpenFile_def split: option.splits)

lemma WriteString_fst:
  "files w name = Some f \<Longrightarrow>
     fst (WriteString E name s w) =
       (case write_error E name of None \<Rightarrow> None | Some (n, e) \<Rightarrow> Some (PathError ''write'' name e))"
  by (simp add: WriteString_def split: option.splits prod.splits)

lemma WriteString_written:
  "files w name = Some f \<Longrightarrow>
     files (snd (WriteString E name s w)) name =
       Some (f\<lparr>Contents := Contents f @
               (case write_error E name of None \<Rightarrow> s | Some (n, e) \<Rightarrow> take n s)\<rparr>)"
  by (simp add: WriteString_def split: option.splits prod.splits)



lemma SaveAccount_steps:
  assumes home: "homedir_Dir E = Inr home"
    and mk: "fst (MkdirAll E (home @ ''/.iwallet'') 0x1C0 w) = None"
    and key: "key = key_file_name (home @ ''/.iwallet'') name kp"
    and w1: "w1 = snd (MkdirAll E (home @ ''/.iwallet'') 0x1C0 w)"
  shows "SaveAccount E name kp w =
     (case open_error E (key @ ''.pub'') of
        Some e \<Rightarrow>
          (Some (Errorf ''create file %v err %v''
                   [ArgStr (key @ ''.pub''), ArgErr (PathError ''open'' (key @ ''.pub'') e)]), w1)
      | None \<Rightarrow>
          (case write_error E (key @ ''.pub'') of
             Some (n, e) \<Rightarrow> (Some (PathError ''write'' (key @ ''.pub'') e), after_pub_write E key kp w1)
           | None \<Rightarrow>
               (case open_error E key of
                  Some e \<Rightarrow>
                    (Some (Errorf ''create file %v err %v''
                             [ArgStr key, ArgErr (PathError ''open'' key e)]),
                     after_pub_write E key kp w1)
                | None \<Rightarrow>
                    (case write_error E key of
                       Some (n, e) \<Rightarrow> (Some (PathError ''write'' key e), after_key_write E key kp w1)
                     | None \<Rightarrow>
                         (None, Println ''Your account private key is saved at:'' key
                                  (after_key_write E key kp w1))))))"
proof -
  let ?pub = "key @ ''.pub''"
  have flags: "O_CREATE \<in> {O_RDWR, O_CREATE, O_TRUNC}" "O_TRUNC \<in> {O_RDWR, O_CREATE, O_TRUNC}"
    by simp_all
  have mkpair: "MkdirAll E (home @ ''/.iwallet'') 0x1C0 w = (None, w1)"
    using mk w1 by (metis prod.collapse)
  have start: "SaveAccount E name kp w =
      (case Create E ?pub w1 of
         (Inl err, w2) \<Rightarrow>
           (Some (Errorf ''create file %v err %v'' [ArgStr ?pub, ArgErr err]), w2)
       | (Inr pubfile, w2) \<Rightarrow>
           (case WriteString E pubfile (Base58Encode E (Pubkey kp)) w2 of
              (Some err, w3) \<Rightarrow> (Some err, w3)
            | (None, w3) \<Rightarrow>
                (case OpenFile E key {O_RDWR, O_CREATE, O_TRUNC} 0x100 w3 of
                   (Inl err, w4) \<Rightarrow>
                     (Some (Errorf ''create file %v err %v'' [ArgStr key, ArgErr err]), w4)
                 | (Inr secFile, w4) \<Rightarrow>
                     (case WriteString E secFile (Base58Encode E (Seckey kp)) w4 of
                        (Some err, w5) \<Rightarrow> (Some err, w5)
                      | (None, w5) \<Rightarrow>
                          (None, Println ''Your account private key is saved at:'' key w5)))))"
    by (simp add: SaveAccount_def getAccountDir_def home mkpair key [symmetric] Let_def)
  show ?thesis
  proof (cases "open_error E ?pub")
    case (Some e)
    then show ?thesis
      by (simp add: start Create_def OpenFile_fail)
  next
    case None
    have c: "Create E ?pub w1 = (Inr ?pub, after_pub_open E key w1)"
      using OpenFile_fst_ok [OF None flags(1), of "0x1B6" w1]
      by (simp add: Create_def after_pub_open_def prod_eq_iff)
    have pubfile: "files (after_pub_open E key w1) ?pub =
        Some \<lparr>Perm = (case files w1 ?pub of None \<Rightarrow> 0x1B6 AND NOT (umask w1) | Some f \<Rightarrow> Perm f),
              Contents = []\<rparr>"
      unfolding after_pub_open_def Create_def by (rule OpenFile_opened [OF None flags])
    have wr: "WriteString E ?pub (Base58Encode E (Pubkey kp)) (after_pub_open E key w1) =
        (case write_error E ?pub of None \<Rightarrow> None | Some (n, e) \<Rightarrow> Some (PathError ''write'' ?pub e),
         after_pub_write E key kp w1)"
      using WriteString_fst [OF pubfile, of E "Base58Encode E (Pubkey kp)"]
      by (simp add: after_pub_write_def prod_eq_iff)
    show ?thesis
    proof (cases "write_error E ?pub")
      case (Some ne)
      then show ?thesis
        by (cases ne) (simp add: start c wr None)
    next
      case wnone: None
      show ?thesis
      proof (cases "open_error E key")
        case (Some e)
        then show ?thesis
          by (simp add: start c wr None wnone OpenFile_fail)
      next
        case knone: None
        have o: "OpenFile E key {O_RDWR, O_CREATE, O_TRUNC} 0x100 (after_pub_write E key kp w1) =
            (Inr key, after_key_open E key kp w1)"
          using OpenFile_fst_ok [OF knone flags(1), of "0x100" "after_pub_write E key kp w1"]
          by (simp add: after_key_open_def prod_eq_iff)
        have keyfile: "\<exists>f. files (after_key_open E key kp w1) key = Some f"
          unfolding after_key_open_def by (simp add: OpenFile_opened [OF knone flags])
        then obtain f where f: "files (after_key_open E key kp w1) key = Some f" by blast
        have kw: "WriteString E key (Base58Encode E (Seckey kp)) (after_key_open E key kp w1) =
            (case write_error E key of None \<Rightarrow> None | Some (n, e) \<Rightarrow> Some (PathError ''write'' key e),
             after_key_write E key kp w1)"
          using WriteString_fst [OF f, of E "Base58Encode E (Seckey kp)"]
          by (simp add: after_key_write_def prod_eq_iff)
        show ?thesis
        proof (cases "write_error E key")
          case (Some ne)
          then show ?thesis
            by (cases ne) (simp add: start c wr None wnone knone o kw)
        next
          case kwnone: None
          then show ?thesis
            by (simp add: start c wr None wnone knone o kw)
        qed
      qed
    qed
  qed
qed





lemma after_pub_write_pub:
  "open_error E (key @ ''.pub'') = None \<Longrightarrow>
     files (after_pub_write E key kp w1) (key @ ''.pub'') =
       Some \<lparr>Perm = (case files w1 (key @ ''.pub'') of
                       None \<Rightarrow> 0x1B6 AND NOT (umask w1) | Some f \<Rightarrow> Perm f),
             Contents = (case write_error E (key @ ''.pub'') of
                           None \<Rightarrow> Base58Encode E (Pubkey kp)
                         | Some (n, e) \<Rightarrow> take n (Base58Encode E (Pubkey kp)))\<rparr>"
proof -
  assume ok: "open_error E (key @ ''.pub'') = None"
  have "files (after_pub_open E key w1) (key @ ''.pub'') =
      Some \<lparr>Perm = (case files w1 (key @ ''.pub'') of
                      None \<Rightarrow> 0x1B6 AND NOT (umask w1) | Some f \<Rightarrow> Perm f),
            Contents = []\<rparr>"
    unfolding after_pub_open_def Create_def by (rule OpenFile_opened [OF ok]) simp_all
  from WriteString_written [OF this, of E "Base58Encode E (Pubkey kp)"]
  show ?thesis by (simp add: after_pub_write_def)
qed

lemma after_key_write_pub:
  "files (after_key_write E key kp w1) (key @ ''.pub'') =
     files (after_pub_write E key kp w1) (key @ ''.pub'')"
  by (simp add: after_key_write_def after_key_open_def WriteString_other OpenFile_other)




lemma demo_home: "homedir_Dir (demo_os oe we) = Inr ''/home/u''"
  by (simp add: demo_os_def)

lemma demo_key_name:
  "key_file_name (''/home/u'' @ ''/.iwallet'') ''alice'' demo_pair = ''/home/u/.iwallet/alice_ed25519''"
  by (simp add: key_file_name_def demo_pair_def)

lemma demo_mkdir: "fst (MkdirAll (demo_os oe we) (''/home/u'' @ ''/.iwallet'') 0x1C0 demo_world) = None"
  by (simp add: MkdirAll_def demo_os_def demo_world_def)



text \<open>
  C9. For every key pair and account name, once the account directory is there, with
  \<open>key\<close> the private key file and \<open>pub\<close> the public key file:
  \<^item> when the public key file cannot be created, the call fails with the create-file
    error, which carries \<open>pub\<close> and the error of the system;
  \<^item> when the write to it fails, the call fails with the \<^verbatim>\<open>*PathError\<close> of the write,
    which carries \<open>pub\<close>;
  \<^item> when the private key file cannot be created, the call fails with the create-file
    error, which carries \<open>key\<close>; when the write to it fails, the call fails with the
    \<^verbatim>\<open>*PathError\<close> of the write, which carries \<open>key\<close>. In both cases the public key file
    is still there, with the encoded public key as its contents;
  \<^item> the call succeeds exactly when none of the four steps fails.
\<close>

theorem SaveAccount_errors:
  "homedir_Dir E = Inr home \<Longrightarrow> fst (MkdirAll E (home @ ''/.iwallet'') 0x1C0 w) = None \<Longrightarrow>
   key = key_file_name (home @ ''/.iwallet'') name kp \<Longrightarrow> pub = key @ ''.pub'' \<Longrightarrow>
   r = SaveAccount E name kp w \<Longrightarrow>
     (\<forall>e. open_error E pub = Some e \<longrightarrow>
        fst r = Some (Errorf ''create file %v err %v''
                        [ArgStr pub, ArgErr (PathError ''open'' pub e)]))
     \<and> (\<forall>n e. open_error E pub = None \<and> write_error E pub = Some (n, e) \<longrightarrow>
          fst r = Some (PathError ''write'' pub e))
     \<and> (\<forall>e. open_error E pub = None \<and> write_error E pub = None \<and> open_error E key = Some e \<longrightarrow>
          fst r = Some (Errorf ''create file %v err %v''
                          [ArgStr key, ArgErr (PathError ''open'' key e)])
          \<and> (\<exists>f. files (snd r) pub = Some f \<and> Contents f = Base58Encode E (Pubkey kp)))
     \<and> (\<forall>n e. open_error E pub = None \<and> write_error E pub = None \<and> open_error E key = None
            \<and> write_error E key = Some (n, e) \<longrightarrow>
          fst r = Some (PathError ''write'' key e)
          \<and> (\<exists>f. files (snd r) pub = Some f \<and> Contents f = Base58Encode E (Pubkey kp)))
     \<and> (fst r = None \<longleftrightarrow>
          open_error E pub = None \<and> write_error E pub = None
          \<and> open_error E key = None \<and> write_error E key = None)"
proof -
  assume home: "homedir_Dir E = Inr home"
    and mk: "fst (MkdirAll E (home @ ''/.iwallet'') 0x1C0 w) = None"
    and key: "key = key_file_name (home @ ''/.iwallet'') name kp"
    and pub: "pub = key @ ''.pub''"
    and r: "r = SaveAccount E name kp w"
  define w1 where "w1 = snd (MkdirAll E (home @ ''/.iwallet'') 0x1C0 w)"
  note steps = SaveAccount_steps [OF home mk key w1_def]
  have 1: "\<forall>e. open_error E pub = Some e \<longrightarrow>
        fst r = Some (Errorf ''create file %v err %v''
                        [ArgStr pub, ArgErr (PathError ''open'' pub e)])"
    by (simp add: r steps pub)
  have 2: "\<forall>n e. open_error E pub = None \<and> write_error E pub = Some (n, e) \<longrightarrow>
          fst r = Some (PathError ''write'' pub e)"
    by (simp add: r steps pub)
  have 3: "\<forall>e. open_error E pub = None \<and> write_error E pub = None \<and> open_error E key = Some e \<longrightarrow>
          fst r = Some (Errorf ''create file %v err %v''
                          [ArgStr key, ArgErr (PathError ''open'' key e)])
          \<and> (\<exists>f. files (snd r) pub = Some f \<and> Contents f = Base58Encode E (Pubkey kp))"
    by (simp add: r steps pub after_pub_write_pub)
  have 4: "\<forall>n e. open_error E pub = None \<and> write_error E pub = None \<and> open_error E key = None
            \<and> write_error E key = Some (n, e) \<longrightarrow>
          fst r = Some (PathError ''write'' key e)
          \<and> (\<exists>f. files (snd r) pub = Some f \<and> Contents f = Base58Encode E (Pubkey kp))"
    by (simp add: r steps pub after_key_write_pub after_pub_write_pub)
  have 5: "fst r = None \<longleftrightarrow>
          open_error E pub = None \<and> write_error E pub = None
          \<and> open_error E key = None \<and> write_error E key = None"
    by (simp add: r steps pub split: option.splits prod.splits)
  from 1 2 3 4 5 show ?thesis by blast
qed

theorem SaveAccount_errors_witness:
  "fst (SaveAccount (demo_os (deny ''/home/u/.iwallet/alice_ed25519.pub'') (\<lambda>f. None))
          ''alice'' demo_pair demo_world) =
     Some (Errorf ''create file %v err %v''
             [ArgStr ''/home/u/.iwallet/alice_ed25519.pub'',
              ArgErr (PathError ''open'' ''/home/u/.iwallet/alice_ed25519.pub''
                        (ErrorString ''permission denied''))])
   \<and> fst (SaveAccount (demo_os (deny ''/home/u/.iwallet/alice_ed25519'') (\<lambda>f. None))
          ''alice'' demo_pair demo_world) =
     Some (Errorf ''create file %v err %v''
             [ArgStr ''/home/u/.iwallet/alice_ed25519'',
              ArgErr (PathError ''open'' ''/home/u/.iwallet/alice_ed25519''
                        (ErrorString ''permission denied''))])
   \<and> (\<exists>f. files (snd (SaveAccount (demo_os (deny ''/home/u/.iwallet/alice_ed25519'') (\<lambda>f. None))
                         ''alice'' demo_pair demo_world))
            ''/home/u/.iwallet/alice_ed25519.pub'' = Some f
          \<and> Contents f = ''11'')
   \<and> fst (SaveAccount (demo_os (\<lambda>f. None) disk_full) ''alice'' demo_pair demo_world) =
     Some (PathError ''write'' ''/home/u/.iwallet/alice_ed25519''
             (ErrorString ''no space left on device''))
   \<and> (\<exists>f. files (snd (SaveAccount (demo_os (\<lambda>f. None) disk_full) ''alice'' demo_pair demo_world))
            ''/home/u/.iwallet/alice_ed25519.pub'' = Some f
          \<and> Contents f = ''11'')
   \<and> fst (SaveAccount (demo_os (\<lambda>f. None) (\<lambda>f. None)) ''alice'' demo_pair demo_world) = None"
proof -
  note T = SaveAccount_errors [OF demo_home demo_mkdir demo_key_name [symmetric] refl refl]
  have b58: "\<And>oe we. Base58Encode (demo_os oe we) (Pubkey demo_pair) = ''11''"
    by (simp add: demo_os_def demo_pair_def)
  have 1: "fst (SaveAccount (demo_os (deny ''/home/u/.iwallet/alice_ed25519.pub'') (\<lambda>f. None))
          ''alice'' demo_pair demo_world) =
     Some (Errorf ''create file %v err %v''
             [ArgStr ''/home/u/.iwallet/alice_ed25519.pub'',
              ArgErr (PathError ''open'' ''/home/u/.iwallet/alice_ed25519.pub''
                        (ErrorString ''permission denied''))])"
    using T [of "deny ''/home/u/.iwallet/alice_ed25519.pub''" "\<lambda>f. None", THEN conjunct1,
             rule_format, of "ErrorString ''permission denied''"]
    by (simp add: demo_os_def deny_def)
  have 2: "fst (SaveAccount (demo_os (deny ''/home/u/.iwallet/alice_ed25519'') (\<lambda>f. None))
          ''alice'' demo_pair demo_world) =
     Some (Errorf ''create file %v err %v''
             [ArgStr ''/home/u/.iwallet/alice_ed25519'',
              ArgErr (PathError ''open'' ''/home/u/.iwallet/alice_ed25519''
                        (ErrorString ''permission denied''))])
   \<and> (\<exists>f. files (snd (SaveAccount (demo_os (deny ''/home/u/.iwallet/alice_ed25519'') (\<lambda>f. None))
                         ''alice'' demo_pair demo_world))
            ''/home/u/.iwallet/alice_ed25519.pub'' = Some f
          \<and> Contents f = ''11'')"
  proof -
    have facts:
      "open_error (demo_os (deny ''/home/u/.iwallet/alice_ed25519'') (\<lambda>f. None))
         ''/home/u/.iwallet/alice_ed25519.pub'' = None"
      "write_error (demo_os (deny ''/home/u/.iwallet/alice_ed25519'') (\<lambda>f. None))
         ''/home/u/.iwallet/alice_ed25519.pub'' = None"
      "open_error (demo_os (deny ''/home/u/.iwallet/alice_ed25519'') (\<lambda>f. None))
         ''/home/u/.iwallet/alice_ed25519'' = Some (ErrorString ''permission denied'')"
      by (simp_all add: demo_os_def deny_def)
    from T [of "deny ''/home/u/.iwallet/alice_ed25519''" "\<lambda>f. None",
            THEN conjunct2, THEN conjunct2, THEN conjunct1,
            rule_format, of "ErrorString ''permission denied''"] facts
    show ?thesis by (simp add: b58)
  qed
  have 3: "fst (SaveAccount (demo_os (\<lambda>f. None) disk_full) ''alice'' demo_pair demo_world) =
     Some (PathError ''write'' ''/home/u/.iwallet/alice_ed25519''
             (ErrorString ''no space left on device''))
   \<and> (\<exists>f. files (snd (SaveAccount (demo_os (\<lambda>f. None) disk_full) ''alice'' demo_pair demo_world))
            ''/home/u/.iwallet/alice_ed25519.pub'' = Some f
          \<and> Contents f = ''11'')"
  proof -
    have facts:
      "open_error (demo_os (\<lambda>f. None) disk_full) ''/home/u/.iwallet/alice_ed25519.pub'' = None"
      "write_error (demo_os (\<lambda>f. None) disk_full) ''/home/u/.iwallet/alice_ed25519.pub'' = None"
      "open_error (demo_os (\<lambda>f. None) disk_full) ''/home/u/.iwallet/alice_ed25519'' = None"
      "write_error (demo_os (\<lambda>f. None) disk_full) ''/home/u/.iwallet/alice_ed25519'' =
         Some (1, ErrorString ''no space left on device'')"
      by (simp_all add: demo_os_def disk_full_def)
    from T [of "\<lambda>f. None" disk_full,
            THEN conjunct2, THEN conjunct2, THEN conjunct2, THEN conjunct1,
            rule_format, of 1 "ErrorString ''no space left on device''"] facts
    show ?thesis by (simp add: b58)
  qed
  have 4: "fst (SaveAccount (demo_os (\<lambda>f. None) (\<lambda>f. None)) ''alice'' demo_pair demo_world) = None"
    using T [of "\<lambda>f. None" "\<lambda>f. None"] by (simp add: demo_os_def)
  from 1 2 3 4 show ?thesis by blast
qed

end
